theory Spec2Isabelle
  imports Complex_Main "HOL-Library.AList"
begin

section \<open>Exceptions (exceptions.py and the built-in classes the code raises or catches)\<close>

text \<open>
  The exception classes of \<^verbatim>\<open>exceptions.py\<close>, together with the built-in classes that
  the code raises (\<^verbatim>\<open>ValueError\<close>, \<^verbatim>\<open>AssertionError\<close>), names in an \<^verbatim>\<open>except\<close> clause
  (\<^verbatim>\<open>Exception\<close>), the \<^verbatim>\<open>RuntimeError\<close> that the iteration over a \<^verbatim>\<open>dict\<close> raises,
  and the built-in classes that derive from \<^verbatim>\<open>BaseException\<close> only.
\<close>

datatype exn_class =
    BaseException | Exception | ValueError | AssertionError | RuntimeError
  | SystemExit | KeyboardInterrupt | CancelledError
  | XmppBotError | ConfigurationError | ConnectionError | AuthenticationError
  | NotInitializedError | AlreadyInitializedError | SendError
  | HandlerError | HandlerExistsError | HandlerNotFoundError | AccessDeniedError

text \<open>The class itself followed by its base classes, as the \<^verbatim>\<open>class\<close> statements give them.\<close>

fun mro :: "exn_class \<Rightarrow> exn_class list" where
  "mro BaseException = [BaseException]"
| "mro Exception = [Exception, BaseException]"
| "mro ValueError = [ValueError, Exception, BaseException]"
| "mro AssertionError = [AssertionError, Exception, BaseException]"
| "mro RuntimeError = [RuntimeError, Exception, BaseException]"
| "mro SystemExit = [SystemExit, BaseException]"
| "mro KeyboardInterrupt = [KeyboardInterrupt, BaseException]"
| "mro CancelledError = [CancelledError, BaseException]"
| "mro XmppBotError = [XmppBotError, Exception, BaseException]"
| "mro ConfigurationError = [ConfigurationError, XmppBotError, Exception, BaseException]"
| "mro ConnectionError = [ConnectionError, XmppBotError, Exception, BaseException]"
| "mro AuthenticationError =
     [AuthenticationError, ConnectionError, XmppBotError, Exception, BaseException]"
| "mro NotInitializedError = [NotInitializedError, XmppBotError, Exception, BaseException]"
| "mro AlreadyInitializedError =
     [AlreadyInitializedError, XmppBotError, Exception, BaseException]"
| "mro SendError = [SendError, XmppBotError, Exception, BaseException]"
| "mro HandlerError = [HandlerError, XmppBotError, Exception, BaseException]"
| "mro HandlerExistsError =
     [HandlerExistsError, HandlerError, XmppBotError, Exception, BaseException]"
| "mro HandlerNotFoundError =
     [HandlerNotFoundError, HandlerError, XmppBotError, Exception, BaseException]"
| "mro AccessDeniedError = [AccessDeniedError, XmppBotError, Exception, BaseException]"

text \<open>A raised exception: its class and its text (\<^verbatim>\<open>str(e)\<close>).\<close>

datatype exn = Exn (cls: exn_class) (msg: string)

definition isinstance :: "exn \<Rightarrow> exn_class \<Rightarrow> bool" where
  "isinstance e c = (c \<in> set (mro (cls e)))"


section \<open>Python strings\<close>

text \<open>
  A \<^verbatim>\<open>str\<close> is a list of characters; a character is a code point below 256.
  \<^verbatim>\<open>s.split(c)\<close> for a one-character separator \<open>c\<close> gives the pieces between the
  occurrences of \<open>c\<close>, in order, and never the empty list; \<open>split_from\<close> carries the
  piece read so far.
\<close>

fun split_from :: "char \<Rightarrow> string \<Rightarrow> string \<Rightarrow> string list" where
  "split_from c piece [] = [piece]"
| "split_from c piece (x # xs) =
     (if x = c then piece # split_from c [] xs else split_from c (piece @ [x]) xs)"

definition split_chr :: "char \<Rightarrow> string \<Rightarrow> string list" where
  "split_chr c s = split_from c [] s"

text \<open>\<^verbatim>\<open>str.isspace\<close> on one character: 9 to 13, 28 to 32, 133 and 160.\<close>

definition isspace :: "char \<Rightarrow> bool" where
  "isspace c = (let n = (of_char c :: nat) in
     (9 \<le> n \<and> n \<le> 13) \<or> (28 \<le> n \<and> n \<le> 32) \<or> n = 133 \<or> n = 160)"

definition strip :: "string \<Rightarrow> string" where
  "strip s = rev (dropWhile isspace (rev (dropWhile isspace s)))"

definition lstrip_chr :: "char \<Rightarrow> string \<Rightarrow> string" where
  "lstrip_chr c s = dropWhile (\<lambda>x. x = c) s"

definition rstrip_chr :: "char \<Rightarrow> string \<Rightarrow> string" where
  "rstrip_chr c s = rev (dropWhile (\<lambda>x. x = c) (rev s))"

text \<open>\<^verbatim>\<open>str.lower\<close>: the capitals A to Z and the Latin-1 capitals move up by 32.\<close>

definition lower_chr :: "char \<Rightarrow> char" where
  "lower_chr c = (let n = (of_char c :: nat) in
     if (65 \<le> n \<and> n \<le> 90) \<or> (192 \<le> n \<and> n \<le> 222 \<and> n \<noteq> 215)
     then char_of (n + 32) else c)"

definition lower :: "string \<Rightarrow> string" where
  "lower s = map lower_chr s"

text \<open>\<^verbatim>\<open>str(n)\<close> for an \<^verbatim>\<open>int\<close>: decimal digits, with a minus sign below zero.\<close>

definition digit_chr :: "nat \<Rightarrow> char" where
  "digit_chr d = ''0123456789'' ! (d mod 10)"

function str_nat :: "nat \<Rightarrow> string" where
  "str_nat n = (if n < 10 then [digit_chr n] else str_nat (n div 10) @ [digit_chr (n mod 10)])"
  by pat_completeness auto
termination
  by (relation "measure (\<lambda>n. n)") auto

declare str_nat.simps [simp del]

definition str_int :: "int \<Rightarrow> string" where
  "str_int i = (if i < 0 then CHR ''-'' # str_nat (nat (- i)) else str_nat (nat i))"


section \<open>Constants (config/constants.py)\<close>

definition ENV_JID :: string where "ENV_JID = ''XMPP_JID''"
definition ENV_PASSWORD :: string where "ENV_PASSWORD = ''XMPP_PASSWORD''"
definition ENV_DEFAULT_RECEIVER :: string where "ENV_DEFAULT_RECEIVER = ''XMPP_DEFAULT_RECEIVER''"
definition ENV_BASE_URL :: string where "ENV_BASE_URL = ''XMPP_BASE_URL''"
definition ENV_ALLOWED_JIDS :: string where "ENV_ALLOWED_JIDS = ''XMPP_ALLOWED_JIDS''"
definition ENV_CONNECT_TIMEOUT :: string where "ENV_CONNECT_TIMEOUT = ''XMPP_CONNECT_TIMEOUT''"
definition ENV_KEEPALIVE_INTERVAL :: string where
  "ENV_KEEPALIVE_INTERVAL = ''XMPP_KEEPALIVE_INTERVAL''"
definition ENV_RETRY_DELAY :: string where "ENV_RETRY_DELAY = ''XMPP_RETRY_DELAY''"
definition ENV_SEND_DELAY :: string where "ENV_SEND_DELAY = ''XMPP_SEND_DELAY''"
definition ENV_RESOURCE :: string where "ENV_RESOURCE = ''XMPP_RESOURCE''"
definition ENV_DEBUG :: string where "ENV_DEBUG = ''XMPP_DEBUG''"

definition DEFAULT_CONNECT_TIMEOUT :: int where "DEFAULT_CONNECT_TIMEOUT = 30"
definition DEFAULT_KEEPALIVE_INTERVAL :: int where "DEFAULT_KEEPALIVE_INTERVAL = 60"
definition DEFAULT_RETRY_DELAY :: real where "DEFAULT_RETRY_DELAY = 5"
definition DEFAULT_SEND_DELAY :: real where "DEFAULT_SEND_DELAY = 1 / 10"
definition DEFAULT_RESOURCE :: string where "DEFAULT_RESOURCE = ''xmpp-bot''"
definition DEFAULT_DEBUG :: bool where "DEFAULT_DEBUG = False"

definition ERR_JID_REQUIRED :: string where "ERR_JID_REQUIRED = ''JID is required''"
definition ERR_PASSWORD_REQUIRED :: string where "ERR_PASSWORD_REQUIRED = ''Password is required''"
definition ERR_DEFAULT_RECEIVER_REQUIRED :: string where
  "ERR_DEFAULT_RECEIVER_REQUIRED = ''Default receiver is required''"
definition ERR_NOT_INITIALIZED :: string where
  "ERR_NOT_INITIALIZED = ''Bot is not initialized. Call initialize() first.''"
definition ERR_ALREADY_INITIALIZED :: string where
  "ERR_ALREADY_INITIALIZED = ''Bot is already initialized''"

text \<open>The templates with one placeholder, \<^verbatim>\<open>T.format(x=v)\<close>, as functions of the value.\<close>

definition ERR_INVALID_JID :: "string \<Rightarrow> string" where
  "ERR_INVALID_JID j = ''Invalid JID format: '' @ j"
definition ERR_AUTH_FAILED :: "string \<Rightarrow> string" where
  "ERR_AUTH_FAILED j = ''Authentication failed for '' @ j"
definition ERR_SEND_FAILED :: "string \<Rightarrow> string" where
  "ERR_SEND_FAILED recipient = ''Failed to send message to '' @ recipient"
definition ERR_HANDLER_EXISTS :: "string \<Rightarrow> string" where
  "ERR_HANDLER_EXISTS name = ''Handler '' @ [CHR 0x27] @ name @ [CHR 0x27] @ '' already registered''"
definition ERR_HANDLER_NOT_FOUND :: "string \<Rightarrow> string" where
  "ERR_HANDLER_NOT_FOUND name = ''Handler '' @ [CHR 0x27] @ name @ [CHR 0x27] @ '' not found''"

definition LOG_CONNECTING :: "string \<Rightarrow> string" where
  "LOG_CONNECTING j = ''Connecting to XMPP server as '' @ j @ ''...''"
definition LOG_CONNECTED :: string where "LOG_CONNECTED = ''Connected to XMPP server''"
definition LOG_AUTH_SUCCESS :: string where "LOG_AUTH_SUCCESS = ''Authentication successful''"
definition LOG_DISCONNECTING :: string where
  "LOG_DISCONNECTING = ''Disconnecting from XMPP server...''"
definition LOG_DISCONNECTED :: string where "LOG_DISCONNECTED = ''Disconnected from XMPP server''"
definition LOG_SENDING_MESSAGE :: "string \<Rightarrow> string" where
  "LOG_SENDING_MESSAGE recipient = ''Sending message to '' @ recipient"
definition LOG_MESSAGE_SENT :: "string \<Rightarrow> string" where
  "LOG_MESSAGE_SENT recipient = ''Message sent to '' @ recipient"
definition LOG_MESSAGE_RECEIVED :: "string \<Rightarrow> string" where
  "LOG_MESSAGE_RECEIVED sender = ''Message received from '' @ sender"
definition LOG_HANDLER_REGISTERED :: "string \<Rightarrow> string" where
  "LOG_HANDLER_REGISTERED name = ''Handler '' @ [CHR 0x27] @ name @ [CHR 0x27] @ '' registered''"
definition LOG_HANDLER_REMOVED :: "string \<Rightarrow> string" where
  "LOG_HANDLER_REMOVED name = ''Handler '' @ [CHR 0x27] @ name @ [CHR 0x27] @ '' removed''"


section \<open>Settings (config/settings.py)\<close>

text \<open>
  \<^verbatim>\<open>JID_PATTERN = re.compile(r"^[^@]+@[^@/]+(?:/[^@]+)?$")\<close> and \<^verbatim>\<open>JID_PATTERN.match\<close>.
  No class of the pattern contains \<^verbatim>\<open>@\<close>, so the first group ends at the first \<^verbatim>\<open>@\<close>
  and the second group at the first \<^verbatim>\<open>@\<close> or \<^verbatim>\<open>/\<close> after it; every class contains the
  newline, so \<^verbatim>\<open>$\<close> accepts nothing that the end of the string does not.
\<close>

definition JID_PATTERN_match :: "string \<Rightarrow> bool" where
  "JID_PATTERN_match s =
     (let local_part = takeWhile (\<lambda>c. c \<noteq> CHR ''@'') s;
          rest = dropWhile (\<lambda>c. c \<noteq> CHR ''@'') s
      in local_part \<noteq> [] \<and> rest \<noteq> [] \<and>
         (let after = tl rest;
              domain_part = takeWhile (\<lambda>c. c \<noteq> CHR ''@'' \<and> c \<noteq> CHR ''/'') after;
              tail = dropWhile (\<lambda>c. c \<noteq> CHR ''@'' \<and> c \<noteq> CHR ''/'') after
          in domain_part \<noteq> [] \<and>
             (tail = [] \<or>
              (hd tail = CHR ''/'' \<and> tl tail \<noteq> [] \<and> CHR ''@'' \<notin> set (tl tail)))))"

definition validate_jid :: "string \<Rightarrow> exn + unit" where
  "validate_jid j =
     (if \<not> JID_PATTERN_match j then Inl (Exn ValueError (ERR_INVALID_JID j)) else Inr ())"

text \<open>
  The grammar as the specification words it, to be compared with \<^verbatim>\<open>JID_PATTERN\<close>:
  \<^verbatim>\<open>local-part "@" domain-part ["/" resource]\<close>, with no \<^verbatim>\<open>@\<close> in local-part or
  domain-part and no \<^verbatim>\<open>/\<close> in domain-part; every part that is there is non-empty, and
  the resource is not constrained further. The parts are read off from the left: local-part
  ends at the first \<^verbatim>\<open>@\<close>, domain-part at the first \<^verbatim>\<open>/\<close> after it.
\<close>

definition spec_address_grammar :: "string \<Rightarrow> bool" where
  "spec_address_grammar s =
     (let local_part = takeWhile (\<lambda>c. c \<noteq> CHR ''@'') s;
          rest = dropWhile (\<lambda>c. c \<noteq> CHR ''@'') s
      in local_part \<noteq> [] \<and> rest \<noteq> [] \<and>
         (let after = tl rest;
              domain_part = takeWhile (\<lambda>c. c \<noteq> CHR ''/'') after;
              tail = dropWhile (\<lambda>c. c \<noteq> CHR ''/'') after
          in domain_part \<noteq> [] \<and> CHR ''@'' \<notin> set domain_part \<and> (tail = [] \<or> tl tail \<noteq> [])))"

text \<open>\<^verbatim>\<open>_parse_bool(value, default)\<close>; \<^verbatim>\<open>None\<close> is the absent value.\<close>

definition parse_bool :: "string option \<Rightarrow> bool \<Rightarrow> bool" where
  "parse_bool v dflt =
     (case v of None \<Rightarrow> dflt
      | Some s \<Rightarrow> lower s \<in> set [''true'', ''1'', ''yes'', ''on''])"

text \<open>The loop \<^verbatim>\<open>for jid in jids: _validate_jid(jid, ...)\<close>: the first failure is raised.\<close>

fun validate_all :: "string list \<Rightarrow> exn + unit" where
  "validate_all [] = Inr ()"
| "validate_all (j # js) =
     (case validate_jid j of Inl e \<Rightarrow> Inl e | Inr _ \<Rightarrow> validate_all js)"

definition parse_allowed_jids :: "string option \<Rightarrow> exn + string set option" where
  "parse_allowed_jids v =
     (case v of None \<Rightarrow> Inr None
      | Some s \<Rightarrow>
          if s = [] then Inr None
          else let jids = map strip (filter (\<lambda>j. strip j \<noteq> []) (split_chr CHR '','' s))
               in if jids = [] then Inr None
                  else (case validate_all jids of
                          Inl e \<Rightarrow> Inl e
                        | Inr _ \<Rightarrow> Inr (Some (set jids))))"

record Settings =
  jid :: string
  password :: string
  default_receiver :: string
  base_url :: string
  allowed_jids :: "string set option"
  connect_timeout :: int
  keepalive_interval :: int
  retry_delay :: real
  send_delay :: real
  resource :: string
  debug :: bool

text \<open>
  Construction of the frozen dataclass: the generated \<^verbatim>\<open>__init__\<close> stores the fields and
  calls \<^verbatim>\<open>__post_init__\<close>, whose raise makes the construction fail.
\<close>

definition post_init :: "Settings \<Rightarrow> exn + Settings" where
  "post_init s =
     (if jid s = [] then Inl (Exn ValueError ERR_JID_REQUIRED)
      else if password s = [] then Inl (Exn ValueError ERR_PASSWORD_REQUIRED)
      else if default_receiver s = [] then Inl (Exn ValueError ERR_DEFAULT_RECEIVER_REQUIRED)
      else (case validate_jid (jid s) of
              Inl e \<Rightarrow> Inl e
            | Inr _ \<Rightarrow>
                (case validate_jid (default_receiver s) of
                   Inl e \<Rightarrow> Inl e
                 | Inr _ \<Rightarrow> Inr s)))"

definition full_jid :: "Settings \<Rightarrow> string" where
  "full_jid s = (if CHR ''/'' \<in> set (jid s) then jid s else jid s @ ''/'' @ resource s)"

definition is_jid_allowed :: "Settings \<Rightarrow> string \<Rightarrow> bool" where
  "is_jid_allowed s candidate =
     (case allowed_jids s of
        None \<Rightarrow> True
      | Some allowed \<Rightarrow>
          (let bare_jid = hd (split_chr CHR ''/'' candidate) in bare_jid \<in> allowed))"



text \<open>
  The built-in conversions \<^verbatim>\<open>int(s)\<close> and \<^verbatim>\<open>float(s)\<close> of a string are taken as
  parameters: \<open>Inl m\<close> is the \<^verbatim>\<open>ValueError\<close> with text \<open>m\<close> that the built-in raises on a
  string it cannot read.
\<close>

record builtins =
  py_int :: "string \<Rightarrow> string + int"
  py_float :: "string \<Rightarrow> string + real"

definition int_of_str :: "builtins \<Rightarrow> string \<Rightarrow> exn + int" where
  "int_of_str bi s = (case py_int bi s of Inl m \<Rightarrow> Inl (Exn ValueError m) | Inr i \<Rightarrow> Inr i)"

definition float_of_str :: "builtins \<Rightarrow> string \<Rightarrow> exn + real" where
  "float_of_str bi s = (case py_float bi s of Inl m \<Rightarrow> Inl (Exn ValueError m) | Inr x \<Rightarrow> Inr x)"

text \<open>
  The two built-ins on plain decimal literals, for the evaluation of examples: digits
  with an optional minus sign for \<^verbatim>\<open>int\<close>, digits, a point and digits for \<^verbatim>\<open>float\<close>.
  Python reads more (blanks around the literal, underscores, exponents); such strings are
  refused here.
\<close>

definition digit_of :: "char \<Rightarrow> nat option" where
  "digit_of c = (let n = (of_char c :: nat) in if 48 \<le> n \<and> n \<le> 57 then Some (n - 48) else None)"

fun digits_value :: "nat \<Rightarrow> string \<Rightarrow> nat option" where
  "digits_value acc [] = Some acc"
| "digits_value acc (c # cs) =
     (case digit_of c of None \<Rightarrow> None | Some d \<Rightarrow> digits_value (10 * acc + d) cs)"

definition decimal_nat :: "string \<Rightarrow> nat option" where
  "decimal_nat s = (if s = [] then None else digits_value 0 s)"

definition decimal_int :: "string \<Rightarrow> string + int" where
  "decimal_int s =
     (case (if s \<noteq> [] \<and> hd s = CHR ''-'' then map_option (\<lambda>n. - int n) (decimal_nat (tl s))
            else map_option int (decimal_nat s)) of
        None \<Rightarrow> Inl (''invalid literal for int() with base 10: '' @ [CHR 0x27] @ s @ [CHR 0x27])
      | Some i \<Rightarrow> Inr i)"

definition decimal_float :: "string \<Rightarrow> string + real" where
  "decimal_float s =
     (case split_chr CHR ''.'' s of
        [int_digits, frac_digits] \<Rightarrow>
          (case (decimal_nat int_digits, decimal_nat frac_digits) of
             (Some w, Some f) \<Rightarrow> Inr (real w + real f / 10 ^ length frac_digits)
           | _ \<Rightarrow> Inl (''could not convert string to float: '' @ [CHR 0x27] @ s @ [CHR 0x27]))
      | _ \<Rightarrow> Inl (''could not convert string to float: '' @ [CHR 0x27] @ s @ [CHR 0x27]))"

definition decimal_builtins :: builtins where
  "decimal_builtins = \<lparr>py_int = decimal_int, py_float = decimal_float\<rparr>"

text \<open>\<^verbatim>\<open>os.getenv(key, default)\<close> on the environment left by \<^verbatim>\<open>load_dotenv\<close>.\<close>

definition getenv :: "(string \<rightharpoonup> string) \<Rightarrow> string \<Rightarrow> string \<Rightarrow> string" where
  "getenv env k dflt = (case env k of None \<Rightarrow> dflt | Some v \<Rightarrow> v)"

text \<open>
  \<^verbatim>\<open>Settings.from_env\<close>. The defaults of the two float fields pass through
  \<^verbatim>\<open>str(5.0) = "5.0"\<close> and \<^verbatim>\<open>str(0.1) = "0.1"\<close>.
\<close>

definition from_env :: "builtins \<Rightarrow> (string \<rightharpoonup> string) \<Rightarrow> exn + Settings" where
  "from_env bi env =
     (let jid_v = getenv env ENV_JID [];
          password_v = getenv env ENV_PASSWORD [];
          default_receiver_v = getenv env ENV_DEFAULT_RECEIVER [];
          base_url_v = getenv env ENV_BASE_URL []
      in case parse_allowed_jids (env ENV_ALLOWED_JIDS) of
           Inl e \<Rightarrow> Inl e
         | Inr allowed_v \<Rightarrow>
        (case int_of_str bi (getenv env ENV_CONNECT_TIMEOUT (str_int DEFAULT_CONNECT_TIMEOUT)) of
           Inl e \<Rightarrow> Inl e
         | Inr connect_timeout_v \<Rightarrow>
        (case int_of_str bi
                (getenv env ENV_KEEPALIVE_INTERVAL (str_int DEFAULT_KEEPALIVE_INTERVAL)) of
           Inl e \<Rightarrow> Inl e
         | Inr keepalive_interval_v \<Rightarrow>
        (case float_of_str bi (getenv env ENV_RETRY_DELAY ''5.0'') of
           Inl e \<Rightarrow> Inl e
         | Inr retry_delay_v \<Rightarrow>
        (case float_of_str bi (getenv env ENV_SEND_DELAY ''0.1'') of
           Inl e \<Rightarrow> Inl e
         | Inr send_delay_v \<Rightarrow>
             post_init
               \<lparr>jid = jid_v, password = password_v, default_receiver = default_receiver_v,
                base_url = base_url_v, allowed_jids = allowed_v,
                connect_timeout = connect_timeout_v, keepalive_interval = keepalive_interval_v,
                retry_delay = retry_delay_v, send_delay = send_delay_v,
                resource = getenv env ENV_RESOURCE DEFAULT_RESOURCE,
                debug = parse_bool (env ENV_DEBUG) DEFAULT_DEBUG\<rparr>)))))"

text \<open>
  The values of the mapping given to \<^verbatim>\<open>Settings.from_dict\<close>: \<^verbatim>\<open>None\<close>, a \<^verbatim>\<open>bool\<close>, an
  \<^verbatim>\<open>int\<close> or a \<^verbatim>\<open>str\<close>, with \<^verbatim>\<open>str(v)\<close> and the truth value \<^verbatim>\<open>bool(v)\<close>.
\<close>

datatype pyobj = PyNone | PyBool bool | PyInt int | PyStr string

fun py_str :: "pyobj \<Rightarrow> string" where
  "py_str PyNone = ''None''"
| "py_str (PyBool b) = (if b then ''True'' else ''False'')"
| "py_str (PyInt i) = str_int i"
| "py_str (PyStr s) = s"

fun py_bool :: "pyobj \<Rightarrow> bool" where
  "py_bool PyNone = False"
| "py_bool (PyBool b) = b"
| "py_bool (PyInt i) = (i \<noteq> 0)"
| "py_bool (PyStr s) = (s \<noteq> [])"

text \<open>
  The value under the key \<^verbatim>\<open>"allowed_jids"\<close>, of the types the field's annotation and the
  two \<^verbatim>\<open>isinstance\<close> tests name: \<^verbatim>\<open>None\<close>, a \<^verbatim>\<open>str\<close>, or a list, set or frozenset of
  \<^verbatim>\<open>str\<close> (given by its elements).
\<close>

datatype jids_obj = JidsNone | JidsStr string | JidsColl "string list"

text \<open>The mapping itself, key by key; \<open>None\<close> is a key that is absent.\<close>

record settings_dict =
  d_jid :: "pyobj option"
  d_password :: "pyobj option"
  d_default_receiver :: "pyobj option"
  d_base_url :: "pyobj option"
  d_allowed_jids :: "jids_obj option"
  d_connect_timeout :: "pyobj option"
  d_keepalive_interval :: "pyobj option"
  d_retry_delay :: "pyobj option"
  d_send_delay :: "pyobj option"
  d_resource :: "pyobj option"
  d_debug :: "pyobj option"

text \<open>\<^verbatim>\<open>data.get(key)\<close> is \<^verbatim>\<open>None\<close> for an absent key; \<^verbatim>\<open>data.get(key, d)\<close> is \<^verbatim>\<open>d\<close>.\<close>

definition dict_get :: "pyobj option \<Rightarrow> pyobj \<Rightarrow> pyobj" where
  "dict_get v dflt = (case v of None \<Rightarrow> dflt | Some x \<Rightarrow> x)"

text \<open>
  The three kinds of coercion in \<^verbatim>\<open>Settings.from_dict\<close>: of the allow-list by the type
  of the value, and \<^verbatim>\<open>int(str(raw)) if raw is not None else DEFAULT\<close>, likewise with
  \<^verbatim>\<open>float\<close>.
\<close>

definition coerce_allowed_jids :: "jids_obj option \<Rightarrow> exn + string set option" where
  "coerce_allowed_jids v =
     (case v of
        None \<Rightarrow> Inr None
      | Some JidsNone \<Rightarrow> Inr None
      | Some (JidsStr s) \<Rightarrow> parse_allowed_jids (Some s)
      | Some (JidsColl xs) \<Rightarrow> Inr (if xs \<noteq> [] then Some (set xs) else None))"

definition int_or_default :: "builtins \<Rightarrow> pyobj option \<Rightarrow> int \<Rightarrow> exn + int" where
  "int_or_default bi v dflt =
     (let raw = dict_get v PyNone
      in if raw \<noteq> PyNone then int_of_str bi (py_str raw) else Inr dflt)"

definition float_or_default :: "builtins \<Rightarrow> pyobj option \<Rightarrow> real \<Rightarrow> exn + real" where
  "float_or_default bi v dflt =
     (let raw = dict_get v PyNone
      in if raw \<noteq> PyNone then float_of_str bi (py_str raw) else Inr dflt)"

definition from_dict :: "builtins \<Rightarrow> settings_dict \<Rightarrow> exn + Settings" where
  "from_dict bi data =
     (case coerce_allowed_jids (d_allowed_jids data) of
        Inl e \<Rightarrow> Inl e
      | Inr allowed_v \<Rightarrow>
     (case int_or_default bi (d_connect_timeout data) DEFAULT_CONNECT_TIMEOUT of
        Inl e \<Rightarrow> Inl e
      | Inr connect_timeout_val \<Rightarrow>
     (case int_or_default bi (d_keepalive_interval data) DEFAULT_KEEPALIVE_INTERVAL of
        Inl e \<Rightarrow> Inl e
      | Inr keepalive_val \<Rightarrow>
     (case float_or_default bi (d_retry_delay data) DEFAULT_RETRY_DELAY of
        Inl e \<Rightarrow> Inl e
      | Inr retry_val \<Rightarrow>
     (case float_or_default bi (d_send_delay data) DEFAULT_SEND_DELAY of
        Inl e \<Rightarrow> Inl e
      | Inr send_val \<Rightarrow>
          post_init
            \<lparr>jid = py_str (dict_get (d_jid data) (PyStr [])),
             password = py_str (dict_get (d_password data) (PyStr [])),
             default_receiver = py_str (dict_get (d_default_receiver data) (PyStr [])),
             base_url = py_str (dict_get (d_base_url data) (PyStr [])),
             allowed_jids = allowed_v,
             connect_timeout = connect_timeout_val, keepalive_interval = keepalive_val,
             retry_delay = retry_val, send_delay = send_val,
             resource = py_str (dict_get (d_resource data) (PyStr DEFAULT_RESOURCE)),
             debug = py_bool (dict_get (d_debug data) (PyBool DEFAULT_DEBUG))\<rparr>)))))"

text \<open>The two settings of \<^verbatim>\<open>tests/conftest.py\<close>.\<close>

definition valid_settings :: Settings where
  "valid_settings =
     \<lparr>jid = ''bot@example.com'', password = ''secret123'',
      default_receiver = ''user@example.com'', base_url = ''https://example.com'',
      allowed_jids = Some {''user@example.com'', ''admin@example.com''},
      connect_timeout = 30, keepalive_interval = 60, retry_delay = 5, send_delay = 1 / 10,
      resource = ''test-bot'', debug = False\<rparr>"

definition minimal_settings :: Settings where
  "minimal_settings =
     \<lparr>jid = ''bot@example.com'', password = ''secret'',
      default_receiver = ''user@example.com'', base_url = [],
      allowed_jids = None,
      connect_timeout = DEFAULT_CONNECT_TIMEOUT, keepalive_interval = DEFAULT_KEEPALIVE_INTERVAL,
      retry_delay = DEFAULT_RETRY_DELAY, send_delay = DEFAULT_SEND_DELAY,
      resource = DEFAULT_RESOURCE, debug = DEFAULT_DEBUG\<rparr>"


section \<open>Handler registry (handlers.py)\<close>

text \<open>
  The stanzas handed to the handlers. A sender address is the transport library's \<^verbatim>\<open>JID\<close>
  object, of which the code reads \<^verbatim>\<open>str(jid)\<close> and \<^verbatim>\<open>jid.bare\<close>.
\<close>

record JID =
  jid_full :: string
  jid_bare :: string

record message =
  msg_type :: string
  msg_body :: string
  msg_from :: JID

record presence =
  pres_from :: JID
  pres_type :: string
  pres_status :: string

text \<open>
  A message handler is a callable of the caller's. A call of it either returns (\<open>None\<close>)
  or raises (\<open>Some e\<close>), and while it runs (for an async handler: while it is awaited,
  when other coroutines run too) the bot's message handlers may be changed through the bot's
  own methods. The model has at most one such call per invocation of a handler:
  \<^verbatim>\<open>bot.add_message_handler(name, h)\<close> or \<^verbatim>\<open>bot.remove_message_handler(name)\<close>.
\<close>

datatype 'h api_call = AddMessageHandler string 'h | RemoveMessageHandler string

datatype handler =
  Handler (invoke: "string \<Rightarrow> string \<Rightarrow> message \<Rightarrow> handler api_call option \<times> exn option")

type_synonym MessageHandler = handler

text \<open>A presence handler either returns or raises.\<close>

type_synonym PresenceHandler = "string \<Rightarrow> string \<Rightarrow> string \<Rightarrow> presence \<Rightarrow> exn option"

text \<open>
  Three handlers: one that returns, one that raises, and one that unregisters a name and
  returns (a handler that runs once unregisters its own name).
\<close>

definition returning :: handler where
  "returning = Handler (\<lambda>_ _ _. (None, None))"

definition raising :: "exn \<Rightarrow> handler" where
  "raising e = Handler (\<lambda>_ _ _. (None, Some e))"


text \<open>What an operation does besides changing the state: log records and calls.\<close>

datatype log_method = LogDebug | LogInfo | LogWarning | LogError | LogException

datatype dispatch_path = SyncPath | AsyncPath

datatype event =
    Log log_method string
  | Called dispatch_path string string string
  | ClientCreated string string
  | AddEventHandler string
  | ClientConnect
  | ClientDisconnect
  | ClientSendPresence
  | ClientGetRoster
  | ClientSendMessage string string string
  | BasicConfigDebug

text \<open>
  A \<^verbatim>\<open>dict\<close> keeps its keys in insertion order: an association list, where
  \<^verbatim>\<open>d[k] = v\<close> is \<^const>\<open>AList.update\<close> (in place for a key that is present, at the end
  otherwise) and \<^verbatim>\<open>del d[k]\<close> is \<^const>\<open>AList.delete\<close>.
\<close>

definition dict_contains :: "('k \<times> 'v) list \<Rightarrow> 'k \<Rightarrow> bool" where
  "dict_contains d k = (k \<in> fst ` set d)"

definition dict_values :: "('k \<times> 'v) list \<Rightarrow> 'v list" where
  "dict_values d = map snd d"

record HandlerRegistry =
  message_handlers :: "(string \<times> MessageHandler) list"
  presence_handlers :: "(string \<times> PresenceHandler) list"

definition new_registry :: HandlerRegistry where
  "new_registry = \<lparr>message_handlers = [], presence_handlers = []\<rparr>"

text \<open>
  Every method of the registry and of the bot returns the state it leaves, what it did,
  and the exception it raised, if any.
\<close>

definition registry_add_message_handler ::
  "HandlerRegistry \<Rightarrow> string \<Rightarrow> MessageHandler \<Rightarrow> HandlerRegistry \<times> event list \<times> exn option"
where
  "registry_add_message_handler r name handler =
     (if dict_contains (message_handlers r) name
      then (r, [], Some (Exn HandlerExistsError (ERR_HANDLER_EXISTS name)))
      else (r\<lparr>message_handlers := AList.update name handler (message_handlers r)\<rparr>,
            [Log LogDebug (LOG_HANDLER_REGISTERED name)], None))"

definition registry_remove_message_handler ::
  "HandlerRegistry \<Rightarrow> string \<Rightarrow> HandlerRegistry \<times> event list \<times> exn option"
where
  "registry_remove_message_handler r name =
     (if \<not> dict_contains (message_handlers r) name
      then (r, [], Some (Exn HandlerNotFoundError (ERR_HANDLER_NOT_FOUND name)))
      else (r\<lparr>message_handlers := AList.delete name (message_handlers r)\<rparr>,
            [Log LogDebug (LOG_HANDLER_REMOVED name)], None))"

definition registry_add_presence_handler ::
  "HandlerRegistry \<Rightarrow> string \<Rightarrow> PresenceHandler \<Rightarrow> HandlerRegistry \<times> event list \<times> exn option"
where
  "registry_add_presence_handler r name handler =
     (if dict_contains (presence_handlers r) name
      then (r, [], Some (Exn HandlerExistsError (ERR_HANDLER_EXISTS name)))
      else (r\<lparr>presence_handlers := AList.update name handler (presence_handlers r)\<rparr>,
            [Log LogDebug (LOG_HANDLER_REGISTERED name)], None))"

definition registry_remove_presence_handler ::
  "HandlerRegistry \<Rightarrow> string \<Rightarrow> HandlerRegistry \<times> event list \<times> exn option"
where
  "registry_remove_presence_handler r name =
     (if \<not> dict_contains (presence_handlers r) name
      then (r, [], Some (Exn HandlerNotFoundError (ERR_HANDLER_NOT_FOUND name)))
      else (r\<lparr>presence_handlers := AList.delete name (presence_handlers r)\<rparr>,
            [Log LogDebug (LOG_HANDLER_REMOVED name)], None))"

definition get_message_handlers :: "HandlerRegistry \<Rightarrow> MessageHandler list" where
  "get_message_handlers r = dict_values (message_handlers r)"

definition get_presence_handlers :: "HandlerRegistry \<Rightarrow> PresenceHandler list" where
  "get_presence_handlers r = dict_values (presence_handlers r)"

definition has_message_handler :: "HandlerRegistry \<Rightarrow> string \<Rightarrow> bool" where
  "has_message_handler r name = dict_contains (message_handlers r) name"

definition has_presence_handler :: "HandlerRegistry \<Rightarrow> string \<Rightarrow> bool" where
  "has_presence_handler r name = dict_contains (presence_handlers r) name"

definition registry_clear :: "HandlerRegistry \<Rightarrow> HandlerRegistry" where
  "registry_clear r = r\<lparr>message_handlers := [], presence_handlers := []\<rparr>"


section \<open>The bot (bot.py)\<close>

text \<open>
  The transport library's client is outside the repository. The bot keeps a handle to it;
  what its methods do when called is given by a \<open>transport\<close>: whether \<^verbatim>\<open>connect()\<close>,
  \<^verbatim>\<open>disconnect()\<close> and \<^verbatim>\<open>send_message(mto, mbody)\<close> raise.
\<close>

record client =
  client_jid :: string
  client_password :: string

record transport =
  connect_raises :: "exn option"
  disconnect_raises :: "exn option"
  send_message_raises :: "string \<Rightarrow> string \<Rightarrow> exn option"

record XmppBot =
  settings_opt :: "Settings option"
  client_opt :: "client option"
  initialized :: bool
  connected :: bool
  session_started :: bool
  auth_error :: "string option"
  handlers :: HandlerRegistry
  async_message_handlers :: "(string \<times> MessageHandler) list"
  async_presence_handlers :: "(string \<times> PresenceHandler) list"

text \<open>\<^verbatim>\<open>XmppBot.__init__\<close> on the fresh singleton instance.\<close>

definition new_bot :: XmppBot where
  "new_bot =
     \<lparr>settings_opt = None, client_opt = None, initialized = False, connected = False,
      session_started = False, auth_error = None, handlers = new_registry,
      async_message_handlers = [], async_presence_handlers = []\<rparr>"

text \<open>The properties \<^verbatim>\<open>settings\<close>, \<^verbatim>\<open>is_initialized\<close> and \<^verbatim>\<open>is_connected\<close>.\<close>

definition settings :: "XmppBot \<Rightarrow> exn + Settings" where
  "settings b =
     (case settings_opt b of
        None \<Rightarrow> Inl (Exn NotInitializedError ERR_NOT_INITIALIZED)
      | Some s \<Rightarrow> Inr s)"

definition is_initialized :: "XmppBot \<Rightarrow> bool" where
  "is_initialized b = initialized b"

definition is_connected :: "XmppBot \<Rightarrow> bool" where
  "is_connected b = connected b"

subsection \<open>Transport callbacks\<close>

text \<open>
  \<^verbatim>\<open>_on_session_start\<close>; the argument is the exception raised by \<^verbatim>\<open>send_presence\<close> or by
  the awaited \<^verbatim>\<open>get_roster\<close>, if any, which leaves the flag as it was. An exception of a
  callback ends the callback and goes to the transport's event loop.
\<close>

definition on_session_start :: "exn option \<Rightarrow> XmppBot \<Rightarrow> XmppBot \<times> event list" where
  "on_session_start roster_raises b =
     (if client_opt b = None then (b, [])
      else (case roster_raises of
              Some e \<Rightarrow> (b, [ClientSendPresence, ClientGetRoster])
            | None \<Rightarrow> (b\<lparr>session_started := True\<rparr>, [ClientSendPresence, ClientGetRoster])))"

definition on_failed_auth :: "XmppBot \<Rightarrow> XmppBot \<times> event list" where
  "on_failed_auth b = (b\<lparr>auth_error := Some ''Authentication failed''\<rparr>, [])"

definition on_disconnected :: "XmppBot \<Rightarrow> XmppBot \<times> event list" where
  "on_disconnected b =
     (b\<lparr>connected := False, session_started := False\<rparr>, [Log LogInfo LOG_DISCONNECTED])"

subsection \<open>Handler management\<close>

definition add_message_handler ::
  "XmppBot \<Rightarrow> string \<Rightarrow> MessageHandler \<Rightarrow> XmppBot \<times> event list \<times> exn option"
where
  "add_message_handler b name handler =
     (b\<lparr>async_message_handlers := AList.update name handler (async_message_handlers b)\<rparr>,
      [], None)"

definition remove_message_handler ::
  "XmppBot \<Rightarrow> string \<Rightarrow> XmppBot \<times> event list \<times> exn option"
where
  "remove_message_handler b name =
     (if dict_contains (async_message_handlers b) name
      then (b\<lparr>async_message_handlers := AList.delete name (async_message_handlers b)\<rparr>,
            [], None)
      else (case registry_remove_message_handler (handlers b) name of
              (r, evs, raised) \<Rightarrow> (b\<lparr>handlers := r\<rparr>, evs, raised)))"

definition add_presence_handler ::
  "XmppBot \<Rightarrow> string \<Rightarrow> PresenceHandler \<Rightarrow> XmppBot \<times> event list \<times> exn option"
where
  "add_presence_handler b name handler =
     (b\<lparr>async_presence_handlers := AList.update name handler (async_presence_handlers b)\<rparr>,
      [], None)"

definition remove_presence_handler ::
  "XmppBot \<Rightarrow> string \<Rightarrow> XmppBot \<times> event list \<times> exn option"
where
  "remove_presence_handler b name =
     (if dict_contains (async_presence_handlers b) name
      then (b\<lparr>async_presence_handlers := AList.delete name (async_presence_handlers b)\<rparr>,
            [], None)
      else (case registry_remove_presence_handler (handlers b) name of
              (r, evs, raised) \<Rightarrow> (b\<lparr>handlers := r\<rparr>, evs, raised)))"

subsection \<open>Dispatch of a message\<close>

text \<open>What the one call that a handler may make does to the bot.\<close>

definition apply_call :: "handler api_call option \<Rightarrow> XmppBot \<Rightarrow> XmppBot \<times> event list" where
  "apply_call c b =
     (case c of
        None \<Rightarrow> (b, [])
      | Some (AddMessageHandler name h) \<Rightarrow>
          (case add_message_handler b name h of (b1, evs, raised) \<Rightarrow> (b1, evs))
      | Some (RemoveMessageHandler name) \<Rightarrow>
          (case remove_message_handler b name of (b1, evs, raised) \<Rightarrow> (b1, evs)))"

text \<open>
  The body of both loops of \<^verbatim>\<open>_on_message\<close>: one handler is called inside
  \<^verbatim>\<open>try ... except Exception\<close>, which catches and logs the instances of \<^verbatim>\<open>Exception\<close>;
  any other raised object leaves the loop and the callback. The name the handler is
  registered under only labels the call in the trace.
\<close>

definition call_handler ::
  "dispatch_path \<Rightarrow> string \<Rightarrow> string \<Rightarrow> string \<Rightarrow> message \<Rightarrow> string \<Rightarrow> handler \<Rightarrow> XmppBot
   \<Rightarrow> XmppBot \<times> event list \<times> exn option"
where
  "call_handler path prefix sender body m name h b =
     (case invoke h sender body m of
        (c, raised) \<Rightarrow>
          (case apply_call c b of
             (b1, evs) \<Rightarrow>
               (case raised of
                  None \<Rightarrow> (b1, Called path name sender body # evs, None)
                | Some e \<Rightarrow>
                    if isinstance e Exception
                    then (b1, Called path name sender body # evs
                              @ [Log LogException (prefix @ msg e)], None)
                    else (b1, Called path name sender body # evs, Some e))))"

text \<open>
  The loop over the sync handlers runs over \<^verbatim>\<open>get_message_handlers()\<close>, a list made when
  the loop starts: what the handlers do to the mappings does not change the list.
\<close>

fun call_handlers ::
  "string \<Rightarrow> string \<Rightarrow> string \<Rightarrow> message \<Rightarrow> (string \<times> handler) list \<Rightarrow> XmppBot
   \<Rightarrow> XmppBot \<times> event list \<times> exn option"
where
  "call_handlers prefix sender body m [] b = (b, [], None)"
| "call_handlers prefix sender body m ((name, h) # rest) b =
     (case call_handler SyncPath prefix sender body m name h b of
        (b1, evs1, Some e) \<Rightarrow> (b1, evs1, Some e)
      | (b1, evs1, None) \<Rightarrow>
          (case call_handlers prefix sender body m rest b1 of
             (b2, evs2, r) \<Rightarrow> (b2, evs1 @ evs2, r)))"

text \<open>
  The loop over the async handlers runs over \<^verbatim>\<open>self._async_message_handlers.values()\<close>,
  a view of the mapping itself. Its iterator keeps the number of entries the mapping had
  when the loop started and its position; each time the \<^verbatim>\<open>for\<close> statement asks for the
  next handler, a mapping whose number of entries differs makes it raise
  \<^verbatim>\<open>RuntimeError\<close>, outside the \<^verbatim>\<open>try\<close>. As long as the number is the same, no entry has
  moved: a single call either replaces the value of a key that is present, or changes the
  number of entries.
\<close>

function call_live_handlers ::
  "string \<Rightarrow> string \<Rightarrow> string \<Rightarrow> message \<Rightarrow> nat \<Rightarrow> nat \<Rightarrow> XmppBot
   \<Rightarrow> XmppBot \<times> event list \<times> exn option"
where
  "call_live_handlers prefix sender body m used pos b =
     (if length (async_message_handlers b) \<noteq> used
      then (b, [], Some (Exn RuntimeError ''dictionary changed size during iteration''))
      else if used \<le> pos then (b, [], None)
      else (case async_message_handlers b ! pos of
              (name, h) \<Rightarrow>
                (case call_handler AsyncPath prefix sender body m name h b of
                   (b1, evs1, Some e) \<Rightarrow> (b1, evs1, Some e)
                 | (b1, evs1, None) \<Rightarrow>
                     (case call_live_handlers prefix sender body m used (Suc pos) b1 of
                        (b2, evs2, r) \<Rightarrow> (b2, evs1 @ evs2, r)))))"
  by pat_completeness auto
termination
  by (relation "measure (\<lambda>(prefix, sender, body, m, used, pos, b). used - pos)") auto

declare call_live_handlers.simps [simp del]

definition on_message :: "XmppBot \<Rightarrow> message \<Rightarrow> XmppBot \<times> event list \<times> exn option" where
  "on_message b m =
     (if msg_type m \<notin> set [''chat'', ''normal''] then (b, [], None)
      else let body = msg_body m in
        if body = [] then (b, [], None)
        else let sender = jid_full (msg_from m);
                 bare_sender = jid_bare (msg_from m)
             in case settings_opt b of
                  None \<Rightarrow> (b, [], Some (Exn AssertionError []))
                | Some s \<Rightarrow>
                    if \<not> is_jid_allowed s bare_sender
                    then (b, [Log LogWarning (''Message from unauthorized JID: '' @ bare_sender)],
                          None)
                    else
                      (case call_handlers ''Error in message handler: '' sender body m
                              (message_handlers (handlers b)) b of
                         (b1, evs1, Some e) \<Rightarrow>
                           (b1, Log LogDebug (LOG_MESSAGE_RECEIVED sender) # evs1, Some e)
                       | (b1, evs1, None) \<Rightarrow>
                           (case call_live_handlers ''Error in async message handler: ''
                                   sender body m (length (async_message_handlers b1)) 0 b1 of
                              (b2, evs2, r) \<Rightarrow>
                                (b2, Log LogDebug (LOG_MESSAGE_RECEIVED sender) # evs1 @ evs2,
                                 r))))"

subsection \<open>Sending\<close>

definition reply_to_user ::
  "transport \<Rightarrow> XmppBot \<Rightarrow> string \<Rightarrow> string \<Rightarrow> XmppBot \<times> event list \<times> exn option"
where
  "reply_to_user tr b message recipient =
     (if \<not> initialized b then (b, [], Some (Exn NotInitializedError ERR_NOT_INITIALIZED))
      else if \<not> connected b \<or> client_opt b = None
      then (b, [], Some (Exn SendError (ERR_SEND_FAILED recipient)))
      else (case send_message_raises tr recipient message of
              None \<Rightarrow>
                (b, [Log LogDebug (LOG_SENDING_MESSAGE recipient),
                     ClientSendMessage recipient message ''chat'',
                     Log LogDebug (LOG_MESSAGE_SENT recipient)], None)
            | Some e \<Rightarrow>
                if isinstance e Exception
                then (b, [Log LogDebug (LOG_SENDING_MESSAGE recipient),
                          ClientSendMessage recipient message ''chat'',
                          Log LogError (''Send failed: '' @ msg e)],
                      Some (Exn SendError (ERR_SEND_FAILED recipient)))
                else (b, [Log LogDebug (LOG_SENDING_MESSAGE recipient),
                          ClientSendMessage recipient message ''chat''], Some e)))"

definition send_message ::
  "transport \<Rightarrow> XmppBot \<Rightarrow> string \<Rightarrow> XmppBot \<times> event list \<times> exn option"
where
  "send_message tr b message =
     (if \<not> initialized b then (b, [], Some (Exn NotInitializedError ERR_NOT_INITIALIZED))
      else (case settings_opt b of
              None \<Rightarrow> (b, [], Some (Exn AssertionError []))
            | Some s \<Rightarrow> reply_to_user tr b message (default_receiver s)))"

definition send_url ::
  "transport \<Rightarrow> XmppBot \<Rightarrow> string \<Rightarrow> XmppBot \<times> event list \<times> exn option"
where
  "send_url tr b path =
     (if \<not> initialized b then (b, [], Some (Exn NotInitializedError ERR_NOT_INITIALIZED))
      else (case settings_opt b of
              None \<Rightarrow> (b, [], Some (Exn AssertionError []))
            | Some s \<Rightarrow>
                (let url = rstrip_chr CHR ''/'' (base_url s) @ ''/'' @ lstrip_chr CHR ''/'' path
                 in send_message tr b url)))"

subsection \<open>Connecting and disconnecting\<close>

text \<open>
  What the event loop does during one \<^verbatim>\<open>await asyncio.sleep(0.1)\<close> of the wait loop: the
  callbacks it runs, and the clock reading \<^verbatim>\<open>time() - start_time\<close> taken after it.
\<close>

datatype signal = SessionStart "exn option" | FailedAuth | Disconnected

type_synonym tick = "signal list \<times> real"

fun deliver :: "signal list \<Rightarrow> XmppBot \<Rightarrow> XmppBot \<times> event list" where
  "deliver [] b = (b, [])"
| "deliver (sg # sgs) b =
     (case (case sg of
              SessionStart r \<Rightarrow> on_session_start r b
            | FailedAuth \<Rightarrow> on_failed_auth b
            | Disconnected \<Rightarrow> on_disconnected b) of
        (b1, evs1) \<Rightarrow> (case deliver sgs b1 of (b2, evs2) \<Rightarrow> (b2, evs1 @ evs2)))"

text \<open>
  The wait loop of \<^verbatim>\<open>_connect\<close>. The ticks are the sleeps the event loop grants; the result
  is \<open>None\<close> when they run out while the loop still waits.
\<close>

fun connect_wait ::
  "transport \<Rightarrow> int \<Rightarrow> tick list \<Rightarrow> XmppBot \<Rightarrow> (XmppBot \<times> event list \<times> exn option) option"
where
  "connect_wait tr timeout [] b =
     (if \<not> session_started b \<and> auth_error b = None then None else Some (b, [], None))"
| "connect_wait tr timeout ((sgs, elapsed) # ticks) b =
     (if \<not> session_started b \<and> auth_error b = None
      then (case deliver sgs b of
              (b1, evs1) \<Rightarrow>
                if elapsed > real_of_int timeout
                then (case disconnect_raises tr of
                        Some e \<Rightarrow> Some (b1, evs1 @ [ClientDisconnect], Some e)
                      | None \<Rightarrow>
                          Some (b1, evs1 @ [ClientDisconnect],
                                Some (Exn ConnectionError
                                  (''Connection timed out after '' @ str_int timeout
                                   @ '' seconds''))))
                else (case connect_wait tr timeout ticks b1 of
                        None \<Rightarrow> None
                      | Some (b2, evs2, r) \<Rightarrow> Some (b2, evs1 @ evs2, r)))
      else Some (b, [], None))"

definition connect ::
  "transport \<Rightarrow> tick list \<Rightarrow> XmppBot \<Rightarrow> (XmppBot \<times> event list \<times> exn option) option"
where
  "connect tr ticks b =
     (case settings_opt b of
        None \<Rightarrow> Some (b, [], Some (Exn AssertionError []))
      | Some s \<Rightarrow>
          (let b1 = b\<lparr>client_opt := Some \<lparr>client_jid = full_jid s, client_password = password s\<rparr>,
                       session_started := False, auth_error := None\<rparr>;
               evs1 = [Log LogInfo (LOG_CONNECTING (jid s)),
                       ClientCreated (full_jid s) (password s),
                       AddEventHandler ''session_start'', AddEventHandler ''message'',
                       AddEventHandler ''presence_subscribe'', AddEventHandler ''presence'',
                       AddEventHandler ''failed_auth'', AddEventHandler ''disconnected'',
                       ClientConnect]
           in case connect_raises tr of
                Some e \<Rightarrow> Some (b1, evs1, Some e)
              | None \<Rightarrow>
                  (case connect_wait tr (connect_timeout s) ticks b1 of
                     None \<Rightarrow> None
                   | Some (b2, evs2, Some e) \<Rightarrow> Some (b2, evs1 @ evs2, Some e)
                   | Some (b2, evs2, None) \<Rightarrow>
                       if (case auth_error b2 of None \<Rightarrow> False | Some a \<Rightarrow> a \<noteq> [])
                       then Some (b2, evs1 @ evs2,
                                  Some (Exn AuthenticationError (ERR_AUTH_FAILED (jid s))))
                       else Some (b2\<lparr>connected := True\<rparr>,
                                  evs1 @ evs2 @ [Log LogInfo LOG_CONNECTED,
                                                 Log LogInfo LOG_AUTH_SUCCESS], None))))"

text \<open>
  \<^verbatim>\<open>initialize(settings, env_path)\<close>; without settings they are read by
  \<^verbatim>\<open>Settings.from_env\<close>.
\<close>

definition initialize ::
  "builtins \<Rightarrow> (string \<rightharpoonup> string) \<Rightarrow> transport \<Rightarrow> tick list \<Rightarrow> XmppBot \<Rightarrow> Settings option
   \<Rightarrow> (XmppBot \<times> event list \<times> exn option) option"
where
  "initialize bi env tr ticks b settings_arg =
     (if initialized b then Some (b, [], Some (Exn AlreadyInitializedError ERR_ALREADY_INITIALIZED))
      else (case (case settings_arg of None \<Rightarrow> from_env bi env | Some s \<Rightarrow> Inr s) of
              Inl e \<Rightarrow> Some (b, [], Some e)
            | Inr s \<Rightarrow>
                (let b1 = b\<lparr>settings_opt := Some s\<rparr>;
                     evs0 = (if debug s then [BasicConfigDebug] else [])
                 in case connect tr ticks b1 of
                      None \<Rightarrow> None
                    | Some (b2, evs, Some e) \<Rightarrow> Some (b2, evs0 @ evs, Some e)
                    | Some (b2, evs, None) \<Rightarrow>
                        Some (b2\<lparr>initialized := True\<rparr>, evs0 @ evs, None))))"

text \<open>
  \<^verbatim>\<open>disconnect()\<close>. \<^verbatim>\<open>contextlib.suppress(Exception)\<close> swallows the instances of
  \<^verbatim>\<open>Exception\<close> that the client's \<^verbatim>\<open>disconnect()\<close> raises.
\<close>

definition disconnect :: "transport \<Rightarrow> XmppBot \<Rightarrow> XmppBot \<times> event list \<times> exn option" where
  "disconnect tr b =
     (if \<not> initialized b then (b, [], None)
      else (let closing = (client_opt b \<noteq> None \<and> connected b);
                evs1 = Log LogInfo LOG_DISCONNECTING # (if closing then [ClientDisconnect] else [])
            in case (if closing then disconnect_raises tr else None) of
                 Some e \<Rightarrow>
                   if isinstance e Exception
                   then (b\<lparr>client_opt := None, initialized := False, connected := False,
                            session_started := False, handlers := registry_clear (handlers b),
                            async_message_handlers := [], async_presence_handlers := []\<rparr>,
                         evs1 @ [Log LogInfo LOG_DISCONNECTED], None)
                   else (b, evs1, Some e)
               | None \<Rightarrow>
                   (b\<lparr>client_opt := None, initialized := False, connected := False,
                      session_started := False, handlers := registry_clear (handlers b),
                      async_message_handlers := [], async_presence_handlers := []\<rparr>,
                    evs1 @ [Log LogInfo LOG_DISCONNECTED], None)))"

text \<open>A transport on which no call raises.\<close>

definition quiet_transport :: transport where
  "quiet_transport =
     \<lparr>connect_raises = None, disconnect_raises = None, send_message_raises = (\<lambda>_ _. None)\<rparr>"

text \<open>A call fails with an instance of the class \<open>c\<close>.\<close>

definition raises :: "exn + 'a \<Rightarrow> exn_class \<Rightarrow> bool" where
  "raises r c = (case r of Inl e \<Rightarrow> isinstance e c | Inr _ \<Rightarrow> False)"

subsection \<open>Reading a trace\<close>







subsection \<open>An invariant of the bot\<close>

text \<open>
  The keys of each mapping are distinct, as the keys of a \<^verbatim>\<open>dict\<close> are; a client exists
  only once settings are stored; and the three flags are set only while a client exists.
\<close>

definition invar :: "XmppBot \<Rightarrow> bool" where
  "invar b =
     (distinct (map fst (message_handlers (handlers b)))
      \<and> distinct (map fst (presence_handlers (handlers b)))
      \<and> distinct (map fst (async_message_handlers b))
      \<and> distinct (map fst (async_presence_handlers b))
      \<and> (client_opt b \<noteq> None \<longrightarrow> settings_opt b \<noteq> None)
      \<and> (initialized b \<longrightarrow> client_opt b \<noteq> None)
      \<and> (connected b \<longrightarrow> client_opt b \<noteq> None)
      \<and> (session_started b \<longrightarrow> client_opt b \<noteq> None))"


section \<open>Properties of the string helpers\<close>

lemma split_chr_example: "split_chr CHR '','' ''a,,b,'' = [''a'', [], ''b'', []]"
  by (simp add: split_chr_def)

lemma strip_example: "strip '' a b  '' = ''a b''"
  by (simp add: strip_def isspace_def)

lemma lower_example: "lower ''Yes'' = ''yes''"
  by code_simp

lemma str_int_example: "str_int 30 = ''30'' \<and> str_int (- 5) = ''-5'' \<and> str_int 0 = ''0''"
  by code_simp

lemma split_from_nonempty: "split_from c piece s \<noteq> []"
  by (induction s arbitrary: piece) auto

lemma split_chr_nonempty: "split_chr c s \<noteq> []"
  by (simp add: split_chr_def split_from_nonempty)

lemma hd_split_from: "hd (split_from c piece s) = piece @ takeWhile (\<lambda>x. x \<noteq> c) s"
  by (induction s arbitrary: piece) auto

lemma hd_split_chr: "hd (split_chr c s) = takeWhile (\<lambda>x. x \<noteq> c) s"
  by (simp add: split_chr_def hd_split_from)

lemma sep_notin_hd_split_chr: "c \<notin> set (hd (split_chr c s))"
  unfolding hd_split_chr by (induction s) auto

lemma is_jid_allowed_None: "allowed_jids s = None \<Longrightarrow> is_jid_allowed s candidate"
  by (simp add: is_jid_allowed_def)

lemma is_jid_allowed_Some:
  "allowed_jids s = Some allowed \<Longrightarrow>
   is_jid_allowed s candidate = (takeWhile (\<lambda>x. x \<noteq> CHR ''/'') candidate \<in> allowed)"
  by (simp add: is_jid_allowed_def hd_split_chr)


section \<open>The allow-list check\<close>

text \<open>
  C2. \<^verbatim>\<open>is_jid_allowed\<close> is true for every candidate when the allow-list is \<^verbatim>\<open>None\<close>;
  otherwise it is membership of the candidate cut at its first \<^verbatim>\<open>/\<close>. With the allow-list
  \<^verbatim>\<open>{"user@example.com"}\<close> it is true for \<^verbatim>\<open>"user@example.com"\<close> and for
  \<^verbatim>\<open>"user@example.com/resourceX"\<close> and false for \<^verbatim>\<open>"stranger@example.com"\<close>.
\<close>

theorem is_jid_allowed_bare:
  "(allowed_jids s = None \<longrightarrow> is_jid_allowed s candidate)
   \<and> (allowed_jids s = Some allowed \<longrightarrow>
        is_jid_allowed s candidate = (takeWhile (\<lambda>x. x \<noteq> CHR ''/'') candidate \<in> allowed))
   \<and> (allowed_jids s = Some {''user@example.com''} \<longrightarrow>
        is_jid_allowed s ''user@example.com''
        \<and> is_jid_allowed s ''user@example.com/resourceX''
        \<and> \<not> is_jid_allowed s ''stranger@example.com'')"
proof (intro conjI impI)
  assume "allowed_jids s = None"
  then show "is_jid_allowed s candidate" by (rule is_jid_allowed_None)
next
  assume "allowed_jids s = Some allowed"
  then show "is_jid_allowed s candidate
             = (takeWhile (\<lambda>x. x \<noteq> CHR ''/'') candidate \<in> allowed)"
    by (rule is_jid_allowed_Some)
next
  assume a: "allowed_jids s = Some {''user@example.com''}"
  show "is_jid_allowed s ''user@example.com''"
    by (simp add: is_jid_allowed_Some [OF a])
next
  assume a: "allowed_jids s = Some {''user@example.com''}"
  show "is_jid_allowed s ''user@example.com/resourceX''"
    by (simp add: is_jid_allowed_Some [OF a])
next
  assume a: "allowed_jids s = Some {''user@example.com''}"
  show "\<not> is_jid_allowed s ''stranger@example.com''"
    by (simp add: is_jid_allowed_Some [OF a])
qed

theorem is_jid_allowed_bare_witness:
  "allowed_jids minimal_settings = None
   \<and> is_jid_allowed minimal_settings ''anyone@anywhere.com''
   \<and> allowed_jids (minimal_settings\<lparr>allowed_jids := Some {''user@example.com''}\<rparr>)
       = Some {''user@example.com''}
   \<and> is_jid_allowed (minimal_settings\<lparr>allowed_jids := Some {''user@example.com''}\<rparr>)
        ''user@example.com/resourceX''
   \<and> \<not> is_jid_allowed (minimal_settings\<lparr>allowed_jids := Some {''user@example.com''}\<rparr>)
        ''stranger@example.com''"
proof -
  have n: "allowed_jids minimal_settings = None"
    by (simp add: minimal_settings_def)
  have u: "allowed_jids (minimal_settings\<lparr>allowed_jids := Some {''user@example.com''}\<rparr>)
           = Some {''user@example.com''}"
    by simp
  from n u
    is_jid_allowed_bare [of minimal_settings "''anyone@anywhere.com''" "{}"]
    is_jid_allowed_bare [of "minimal_settings\<lparr>allowed_jids := Some {''user@example.com''}\<rparr>"
                            "[]" "{}"]
  show ?thesis by blast
qed


section \<open>The synchronous registry\<close>

lemma dict_contains_update: "dict_contains (AList.update k v d) k' = (k' = k \<or> dict_contains d k')"
  by (auto simp: dict_contains_def AList.dom_update)

lemma dict_contains_map_of: "dict_contains d k = (map_of d k \<noteq> None)"
  by (simp add: dict_contains_def map_of_eq_None_iff)

lemma dict_contains_delete: "dict_contains (AList.delete k d) k' = (k' \<noteq> k \<and> dict_contains d k')"
  by (auto simp: dict_contains_map_of AList.delete_conv')

text \<open>
  C8. In the registry, for messages and for presence alike and for every name: adding
  under a name that is not registered succeeds and registers the handler; adding again under
  that name raises \<^verbatim>\<open>HandlerExistsError\<close> and leaves the registry, and so the handler first
  registered, as it was; removing a name that is not registered raises
  \<^verbatim>\<open>HandlerNotFoundError\<close>.
\<close>

theorem registry_duplicate_and_missing:
  "(\<not> has_message_handler r name \<longrightarrow>
      (\<exists>r1 evs. registry_add_message_handler r name h = (r1, evs, None)
         \<and> map_of (message_handlers r1) name = Some h
         \<and> registry_add_message_handler r1 name h' =
             (r1, [], Some (Exn HandlerExistsError (ERR_HANDLER_EXISTS name))))
      \<and> registry_remove_message_handler r name =
          (r, [], Some (Exn HandlerNotFoundError (ERR_HANDLER_NOT_FOUND name))))
   \<and> (\<not> has_presence_handler r name \<longrightarrow>
      (\<exists>r1 evs. registry_add_presence_handler r name p = (r1, evs, None)
         \<and> map_of (presence_handlers r1) name = Some p
         \<and> registry_add_presence_handler r1 name p' =
             (r1, [], Some (Exn HandlerExistsError (ERR_HANDLER_EXISTS name))))
      \<and> registry_remove_presence_handler r name =
          (r, [], Some (Exn HandlerNotFoundError (ERR_HANDLER_NOT_FOUND name))))"
  by (simp add: has_message_handler_def has_presence_handler_def
        registry_add_message_handler_def registry_remove_message_handler_def
        registry_add_presence_handler_def registry_remove_presence_handler_def
        dict_contains_update AList.update_conv')

theorem registry_duplicate_and_missing_witness:
  "\<not> has_message_handler new_registry ''test'' \<and> \<not> has_presence_handler new_registry ''test''
   \<and> (\<exists>r1 evs. registry_add_message_handler new_registry ''test'' returning = (r1, evs, None)
         \<and> map_of (message_handlers r1) ''test'' = Some returning
         \<and> registry_add_message_handler r1 ''test'' (raising (Exn Exception ''boom'')) =
             (r1, [], Some (Exn HandlerExistsError ''Handler 'test' already registered'')))
   \<and> registry_remove_presence_handler new_registry ''test'' =
          (new_registry, [], Some (Exn HandlerNotFoundError ''Handler 'test' not found''))"
proof -
  have a: "\<not> has_message_handler new_registry ''test''"
    by (simp add: has_message_handler_def new_registry_def dict_contains_def)
  have b: "\<not> has_presence_handler new_registry ''test''"
    by (simp add: has_presence_handler_def new_registry_def dict_contains_def)
  from a b registry_duplicate_and_missing [of new_registry "''test''" returning
      "raising (Exn Exception ''boom'')" "\<lambda>_ _ _ _. None" "\<lambda>_ _ _ _. None"]
  show ?thesis
    by (simp add: ERR_HANDLER_EXISTS_def ERR_HANDLER_NOT_FOUND_def)
qed


section \<open>Sending before initialization and while disconnected\<close>

text \<open>
  C6. While the initialized flag is not set (before \<^verbatim>\<open>initialize\<close> has succeeded),
  \<^verbatim>\<open>send_message\<close>, \<^verbatim>\<open>reply_to_user\<close> and \<^verbatim>\<open>send_url\<close> each raise
  \<^verbatim>\<open>NotInitializedError\<close> and leave the bot as it was; \<^verbatim>\<open>reply_to_user\<close> on an
  initialized bot that is not connected, or has no client, raises \<^verbatim>\<open>SendError\<close> with a
  text that ends in the recipient.
\<close>

theorem send_before_initialize:
  "(\<not> initialized b \<longrightarrow>
      send_message tr b message = (b, [], Some (Exn NotInitializedError ERR_NOT_INITIALIZED))
      \<and> reply_to_user tr b message recipient =
          (b, [], Some (Exn NotInitializedError ERR_NOT_INITIALIZED))
      \<and> send_url tr b path = (b, [], Some (Exn NotInitializedError ERR_NOT_INITIALIZED)))
   \<and> (initialized b \<and> (\<not> connected b \<or> client_opt b = None) \<longrightarrow>
      reply_to_user tr b message recipient =
        (b, [], Some (Exn SendError (''Failed to send message to '' @ recipient))))"
  by (simp add: send_message_def reply_to_user_def send_url_def ERR_SEND_FAILED_def)

theorem send_before_initialize_witness:
  "\<not> initialized new_bot
   \<and> send_message quiet_transport new_bot ''Hello!'' =
       (new_bot, [], Some (Exn NotInitializedError
                             ''Bot is not initialized. Call initialize() first.''))
   \<and> send_url quiet_transport new_bot ''/path'' =
       (new_bot, [], Some (Exn NotInitializedError
                             ''Bot is not initialized. Call initialize() first.''))
   \<and> initialized (new_bot\<lparr>settings_opt := Some valid_settings, initialized := True\<rparr>)
   \<and> \<not> connected (new_bot\<lparr>settings_opt := Some valid_settings, initialized := True\<rparr>)
   \<and> reply_to_user quiet_transport
        (new_bot\<lparr>settings_opt := Some valid_settings, initialized := True\<rparr>)
        ''Reply!'' ''other@example.com'' =
       (new_bot\<lparr>settings_opt := Some valid_settings, initialized := True\<rparr>, [],
        Some (Exn SendError ''Failed to send message to other@example.com''))"
proof -
  have a: "\<not> initialized new_bot"
    by (simp add: new_bot_def)
  have b: "initialized (new_bot\<lparr>settings_opt := Some valid_settings, initialized := True\<rparr>)
           \<and> \<not> connected (new_bot\<lparr>settings_opt := Some valid_settings, initialized := True\<rparr>)"
    by (simp add: new_bot_def)
  from a b
    send_before_initialize [of new_bot quiet_transport "''Hello!''" "''x''" "''/path''"]
    send_before_initialize
      [of "new_bot\<lparr>settings_opt := Some valid_settings, initialized := True\<rparr>"
          quiet_transport "''Reply!''" "''other@example.com''" "''/path''"]
  show ?thesis
    by (simp add: ERR_NOT_INITIALIZED_def)
qed


section \<open>Handler management on the bot\<close>

lemma keys_update:
  "map fst (AList.update k v d)
   = (if dict_contains d k then map fst d else map fst d @ [k])"
  by (simp add: dict_contains_def AList.update_keys)

text \<open>
  C7. \<^verbatim>\<open>add_message_handler\<close> and \<^verbatim>\<open>add_presence_handler\<close> of the bot store into the
  async mapping without any test: they never raise and change nothing but that mapping, in
  which the name is bound to the new handler afterwards and every other name to what it was
  bound to; a name that was bound keeps its place (the earlier handler is replaced), a new
  name comes last. \<^verbatim>\<open>remove_message_handler\<close> and \<^verbatim>\<open>remove_presence_handler\<close> delete the
  name, and nothing else, from the async mapping when it is there, and change nothing but
  that mapping; otherwise they are the registry's remove, which deletes the name, and
  nothing else, from the registry's mapping when it is there and raises
  \<^verbatim>\<open>HandlerNotFoundError\<close>, leaving the bot unchanged, when the name is in neither.
\<close>

theorem bot_handler_management:
  "(\<exists>X. add_message_handler b name h = (b\<lparr>async_message_handlers := X\<rparr>, [], None)
        \<and> map_of X = (map_of (async_message_handlers b))(name \<mapsto> h)
        \<and> map fst X = (if dict_contains (async_message_handlers b) name
                        then map fst (async_message_handlers b)
                        else map fst (async_message_handlers b) @ [name]))
   \<and> (dict_contains (async_message_handlers b) name \<longrightarrow>
        (\<exists>X. remove_message_handler b name = (b\<lparr>async_message_handlers := X\<rparr>, [], None)
           \<and> map_of X = (map_of (async_message_handlers b))(name := None)
           \<and> map fst X = removeAll name (map fst (async_message_handlers b))))
   \<and> (\<not> dict_contains (async_message_handlers b) name \<and> has_message_handler (handlers b) name \<longrightarrow>
        (\<exists>Y. remove_message_handler b name =
                (b\<lparr>handlers := (handlers b)\<lparr>message_handlers := Y\<rparr>\<rparr>,
                 [Log LogDebug (LOG_HANDLER_REMOVED name)], None)
           \<and> map_of Y = (map_of (message_handlers (handlers b)))(name := None)
           \<and> map fst Y = removeAll name (map fst (message_handlers (handlers b)))))
   \<and> (\<not> dict_contains (async_message_handlers b) name \<and> \<not> has_message_handler (handlers b) name \<longrightarrow>
        remove_message_handler b name =
          (b, [], Some (Exn HandlerNotFoundError (ERR_HANDLER_NOT_FOUND name))))
   \<and> (\<exists>X. add_presence_handler b name p = (b\<lparr>async_presence_handlers := X\<rparr>, [], None)
        \<and> map_of X = (map_of (async_presence_handlers b))(name \<mapsto> p)
        \<and> map fst X = (if dict_contains (async_presence_handlers b) name
                        then map fst (async_presence_handlers b)
                        else map fst (async_presence_handlers b) @ [name]))
   \<and> (dict_contains (async_presence_handlers b) name \<longrightarrow>
        (\<exists>X. remove_presence_handler b name = (b\<lparr>async_presence_handlers := X\<rparr>, [], None)
           \<and> map_of X = (map_of (async_presence_handlers b))(name := None)
           \<and> map fst X = removeAll name (map fst (async_presence_handlers b))))
   \<and> (\<not> dict_contains (async_presence_handlers b) name \<and> has_presence_handler (handlers b) name \<longrightarrow>
        (\<exists>Y. remove_presence_handler b name =
                (b\<lparr>handlers := (handlers b)\<lparr>presence_handlers := Y\<rparr>\<rparr>,
                 [Log LogDebug (LOG_HANDLER_REMOVED name)], None)
           \<and> map_of Y = (map_of (presence_handlers (handlers b)))(name := None)
           \<and> map fst Y = removeAll name (map fst (presence_handlers (handlers b)))))
   \<and> (\<not> dict_contains (async_presence_handlers b) name \<and> \<not> has_presence_handler (handlers b) name \<longrightarrow>
        remove_presence_handler b name =
          (b, [], Some (Exn HandlerNotFoundError (ERR_HANDLER_NOT_FOUND name))))"
proof (intro conjI)
  show "\<exists>X. add_message_handler b name h = (b\<lparr>async_message_handlers := X\<rparr>, [], None)
        \<and> map_of X = (map_of (async_message_handlers b))(name \<mapsto> h)
        \<and> map fst X = (if dict_contains (async_message_handlers b) name
                        then map fst (async_message_handlers b)
                        else map fst (async_message_handlers b) @ [name])"
    by (rule exI [of _ "AList.update name h (async_message_handlers b)"])
       (simp add: add_message_handler_def AList.update_conv' keys_update)
  show "\<exists>X. add_presence_handler b name p = (b\<lparr>async_presence_handlers := X\<rparr>, [], None)
        \<and> map_of X = (map_of (async_presence_handlers b))(name \<mapsto> p)
        \<and> map fst X = (if dict_contains (async_presence_handlers b) name
                        then map fst (async_presence_handlers b)
                        else map fst (async_presence_handlers b) @ [name])"
    by (rule exI [of _ "AList.update name p (async_presence_handlers b)"])
       (simp add: add_presence_handler_def AList.update_conv' keys_update)
  show "dict_contains (async_message_handlers b) name \<longrightarrow>
        (\<exists>X. remove_message_handler b name = (b\<lparr>async_message_handlers := X\<rparr>, [], None)
           \<and> map_of X = (map_of (async_message_handlers b))(name := None)
           \<and> map fst X = removeAll name (map fst (async_message_handlers b)))"
    by (intro impI exI [of _ "AList.delete name (async_message_handlers b)"])
       (simp add: remove_message_handler_def AList.delete_conv' AList.delete_keys)
  show "dict_contains (async_presence_handlers b) name \<longrightarrow>
        (\<exists>X. remove_presence_handler b name = (b\<lparr>async_presence_handlers := X\<rparr>, [], None)
           \<and> map_of X = (map_of (async_presence_handlers b))(name := None)
           \<and> map fst X = removeAll name (map fst (async_presence_handlers b)))"
    by (intro impI exI [of _ "AList.delete name (async_presence_handlers b)"])
       (simp add: remove_presence_handler_def AList.delete_conv' AList.delete_keys)
  show "\<not> dict_contains (async_message_handlers b) name \<and> has_message_handler (handlers b) name \<longrightarrow>
        (\<exists>Y. remove_message_handler b name =
                (b\<lparr>handlers := (handlers b)\<lparr>message_handlers := Y\<rparr>\<rparr>,
                 [Log LogDebug (LOG_HANDLER_REMOVED name)], None)
           \<and> map_of Y = (map_of (message_handlers (handlers b)))(name := None)
           \<and> map fst Y = removeAll name (map fst (message_handlers (handlers b))))"
    by (intro impI exI [of _ "AList.delete name (message_handlers (handlers b))"])
       (simp add: remove_message_handler_def registry_remove_message_handler_def
          has_message_handler_def AList.delete_conv' AList.delete_keys)
  show "\<not> dict_contains (async_presence_handlers b) name \<and> has_presence_handler (handlers b) name \<longrightarrow>
        (\<exists>Y. remove_presence_handler b name =
                (b\<lparr>handlers := (handlers b)\<lparr>presence_handlers := Y\<rparr>\<rparr>,
                 [Log LogDebug (LOG_HANDLER_REMOVED name)], None)
           \<and> map_of Y = (map_of (presence_handlers (handlers b)))(name := None)
           \<and> map fst Y = removeAll name (map fst (presence_handlers (handlers b))))"
    by (intro impI exI [of _ "AList.delete name (presence_handlers (handlers b))"])
       (simp add: remove_presence_handler_def registry_remove_presence_handler_def
          has_presence_handler_def AList.delete_conv' AList.delete_keys)
  show "\<not> dict_contains (async_message_handlers b) name \<and> \<not> has_message_handler (handlers b) name \<longrightarrow>
        remove_message_handler b name =
          (b, [], Some (Exn HandlerNotFoundError (ERR_HANDLER_NOT_FOUND name)))"
    by (simp add: remove_message_handler_def registry_remove_message_handler_def
          has_message_handler_def)
  show "\<not> dict_contains (async_presence_handlers b) name \<and> \<not> has_presence_handler (handlers b) name \<longrightarrow>
        remove_presence_handler b name =
          (b, [], Some (Exn HandlerNotFoundError (ERR_HANDLER_NOT_FOUND name)))"
    by (simp add: remove_presence_handler_def registry_remove_presence_handler_def
          has_presence_handler_def)
qed

text \<open>
  With \<open>keep\<close> and \<open>test\<close> registered: registering \<open>test\<close> again replaces its handler in
  place and leaves \<open>keep\<close> alone, without error; removing \<open>test\<close> leaves \<open>keep\<close> alone;
  removing a name that is registered nowhere raises.
\<close>

theorem bot_handler_management_witness:
  "dict_contains
     (async_message_handlers
        (new_bot\<lparr>async_message_handlers := [(''keep'', returning), (''test'', returning)]\<rparr>))
     ''test''
   \<and> (\<exists>X. add_message_handler
              (new_bot\<lparr>async_message_handlers := [(''keep'', returning), (''test'', returning)]\<rparr>)
              ''test'' (raising (Exn Exception ''boom''))
            = (new_bot\<lparr>async_message_handlers := X\<rparr>, [], None)
         \<and> map_of X ''test'' = Some (raising (Exn Exception ''boom''))
         \<and> map_of X ''keep'' = Some returning
         \<and> map fst X = [''keep'', ''test''])
   \<and> (\<exists>X. remove_message_handler
              (new_bot\<lparr>async_message_handlers := [(''keep'', returning), (''test'', returning)]\<rparr>)
              ''test''
            = (new_bot\<lparr>async_message_handlers := X\<rparr>, [], None)
         \<and> map_of X ''test'' = None
         \<and> map_of X ''keep'' = Some returning
         \<and> map fst X = [''keep''])
   \<and> \<not> dict_contains (async_presence_handlers new_bot) ''test''
   \<and> \<not> has_presence_handler (handlers new_bot) ''test''
   \<and> remove_presence_handler new_bot ''test'' =
        (new_bot, [], Some (Exn HandlerNotFoundError ''Handler 'test' not found''))"
proof -
  let ?b = "new_bot\<lparr>async_message_handlers := [(''keep'', returning), (''test'', returning)]\<rparr>"
  have k: "dict_contains (async_message_handlers ?b) ''test''"
    by (simp add: dict_contains_def)
  have am: "async_message_handlers ?b = [(''keep'', returning), (''test'', returning)]"
    by simp
  have upd: "?b\<lparr>async_message_handlers := X\<rparr> = new_bot\<lparr>async_message_handlers := X\<rparr>" for X
    by simp
  have n: "\<not> dict_contains (async_presence_handlers new_bot) ''test''"
    "\<not> has_presence_handler (handlers new_bot) ''test''"
    by (simp_all add: new_bot_def new_registry_def dict_contains_def has_presence_handler_def)
  note T = bot_handler_management [of ?b "''test''" "raising (Exn Exception ''boom'')"
                                      "\<lambda>_ _ _ _. None"]
  from T [THEN conjunct1] obtain X where
    X: "add_message_handler ?b ''test'' (raising (Exn Exception ''boom''))
          = (?b\<lparr>async_message_handlers := X\<rparr>, [], None)
        \<and> map_of X = (map_of (async_message_handlers ?b))
                        (''test'' \<mapsto> raising (Exn Exception ''boom''))
        \<and> map fst X = (if dict_contains (async_message_handlers ?b) ''test''
                        then map fst (async_message_handlers ?b)
                        else map fst (async_message_handlers ?b) @ [''test''])" ..
  from X have x0: "add_message_handler ?b ''test'' (raising (Exn Exception ''boom''))
          = (new_bot\<lparr>async_message_handlers := X\<rparr>, [], None)"
    unfolding upd by (rule conjunct1)
  from X have xm: "map_of X = (map_of [(''keep'', returning), (''test'', returning)])
                        (''test'' \<mapsto> raising (Exn Exception ''boom''))"
    unfolding am by (elim conjE)
  from xm have x1: "map_of X ''test'' = Some (raising (Exn Exception ''boom''))"
    and x2: "map_of X ''keep'' = Some returning"
    by simp_all
  from X k have x3: "map fst X = [''keep'', ''test'']"
    unfolding am by simp
  from T [THEN conjunct2, THEN conjunct1, THEN mp, OF k] obtain Z where
    Z: "remove_message_handler ?b ''test'' = (?b\<lparr>async_message_handlers := Z\<rparr>, [], None)
        \<and> map_of Z = (map_of (async_message_handlers ?b))(''test'' := None)
        \<and> map fst Z = removeAll ''test'' (map fst (async_message_handlers ?b))" ..
  from Z have z0: "remove_message_handler ?b ''test''
          = (new_bot\<lparr>async_message_handlers := Z\<rparr>, [], None)"
    unfolding upd by (rule conjunct1)
  from Z have zm: "map_of Z = (map_of [(''keep'', returning), (''test'', returning)])
                        (''test'' := None)"
    unfolding am by (elim conjE)
  from zm have z1: "map_of Z ''test'' = None" and z2: "map_of Z ''keep'' = Some returning"
    by simp_all
  from Z have z3: "map fst Z = [''keep'']"
    unfolding am by simp
  note P = bot_handler_management [of new_bot "''test''" returning "\<lambda>_ _ _ _. None"]
  from P have "\<not> dict_contains (async_presence_handlers new_bot) ''test''
               \<and> \<not> has_presence_handler (handlers new_bot) ''test'' \<longrightarrow>
               remove_presence_handler new_bot ''test'' =
                 (new_bot, [], Some (Exn HandlerNotFoundError (ERR_HANDLER_NOT_FOUND ''test'')))"
    by (elim conjE)
  with n have r: "remove_presence_handler new_bot ''test'' =
        (new_bot, [], Some (Exn HandlerNotFoundError (ERR_HANDLER_NOT_FOUND ''test'')))"
    by (elim impE) (rule conjI)
  have r': "remove_presence_handler new_bot ''test'' =
        (new_bot, [], Some (Exn HandlerNotFoundError ''Handler 'test' not found''))"
    unfolding r by (simp add: ERR_HANDLER_NOT_FOUND_def)
  show ?thesis
    by (intro conjI exI [of _ X] exI [of _ Z]) (rule k x0 x1 x2 x3 z0 z1 z2 z3 n r')+
qed


section \<open>The address pattern as a grammar\<close>

text \<open>
  The strings that \<^verbatim>\<open>JID_PATTERN\<close> matches are exactly \<open>l@d\<close> and \<open>l@d/r\<close> with \<open>l\<close>,
  \<open>d\<close>, \<open>r\<close> non-empty, no \<^verbatim>\<open>@\<close> in any of them and no \<^verbatim>\<open>/\<close> in \<open>d\<close>.
\<close>

lemma takeWhile_stop:
  "\<forall>x\<in>set xs. P x \<Longrightarrow> \<not> P y \<Longrightarrow> takeWhile P (xs @ y # ys) = xs"
  by (induction xs) auto

lemma dropWhile_stop:
  "\<forall>x\<in>set xs. P x \<Longrightarrow> \<not> P y \<Longrightarrow> dropWhile P (xs @ y # ys) = y # ys"
  by (induction xs) auto

lemma JID_PATTERN_match_bare:
  assumes "l \<noteq> []" "d \<noteq> []" "CHR ''@'' \<notin> set l" "CHR ''@'' \<notin> set d" "CHR ''/'' \<notin> set d"
  shows "JID_PATTERN_match (l @ CHR ''@'' # d)"
proof -
  have l: "\<forall>x\<in>set l. x \<noteq> CHR ''@''" using assms(3) by auto
  have d: "\<forall>x\<in>set d. x \<noteq> CHR ''@'' \<and> x \<noteq> CHR ''/''" using assms(4,5) by auto
  have 1: "takeWhile (\<lambda>c. c \<noteq> CHR ''@'') (l @ CHR ''@'' # d) = l"
    by (rule takeWhile_stop [OF l]) simp
  have 2: "dropWhile (\<lambda>c. c \<noteq> CHR ''@'') (l @ CHR ''@'' # d) = CHR ''@'' # d"
    by (rule dropWhile_stop [OF l]) simp
  have 3: "takeWhile (\<lambda>c. c \<noteq> CHR ''@'' \<and> c \<noteq> CHR ''/'') d = d"
    using d by simp
  have 4: "dropWhile (\<lambda>c. c \<noteq> CHR ''@'' \<and> c \<noteq> CHR ''/'') d = []"
    using d by simp
  show ?thesis
    unfolding JID_PATTERN_match_def Let_def 1 2 using assms(1,2) by (simp add: 3 4)
qed

lemma JID_PATTERN_match_full:
  assumes "l \<noteq> []" "d \<noteq> []" "r \<noteq> []" "CHR ''@'' \<notin> set l" "CHR ''@'' \<notin> set d"
    "CHR ''/'' \<notin> set d" "CHR ''@'' \<notin> set r"
  shows "JID_PATTERN_match (l @ CHR ''@'' # d @ CHR ''/'' # r)"
proof -
  have l: "\<forall>x\<in>set l. x \<noteq> CHR ''@''" using assms(4) by auto
  have d: "\<forall>x\<in>set d. x \<noteq> CHR ''@'' \<and> x \<noteq> CHR ''/''" using assms(5,6) by auto
  have 1: "takeWhile (\<lambda>c. c \<noteq> CHR ''@'') (l @ CHR ''@'' # d @ CHR ''/'' # r) = l"
    by (rule takeWhile_stop [OF l]) simp
  have 2: "dropWhile (\<lambda>c. c \<noteq> CHR ''@'') (l @ CHR ''@'' # d @ CHR ''/'' # r)
           = CHR ''@'' # d @ CHR ''/'' # r"
    by (rule dropWhile_stop [OF l]) simp
  have 3: "takeWhile (\<lambda>c. c \<noteq> CHR ''@'' \<and> c \<noteq> CHR ''/'') (d @ CHR ''/'' # r) = d"
    by (rule takeWhile_stop [OF d]) simp
  have 4: "dropWhile (\<lambda>c. c \<noteq> CHR ''@'' \<and> c \<noteq> CHR ''/'') (d @ CHR ''/'' # r) = CHR ''/'' # r"
    by (rule dropWhile_stop [OF d]) simp
  show ?thesis
    unfolding JID_PATTERN_match_def Let_def 1 2 using assms(1,2,3,7) by (simp add: 3 4)
qed

lemma JID_PATTERN_match_parts:
  assumes "JID_PATTERN_match s"
  shows "(\<exists>l d. s = l @ CHR ''@'' # d \<and> l \<noteq> [] \<and> d \<noteq> [] \<and> CHR ''@'' \<notin> set l
            \<and> CHR ''@'' \<notin> set d \<and> CHR ''/'' \<notin> set d)
       \<or> (\<exists>l d r. s = l @ CHR ''@'' # d @ CHR ''/'' # r \<and> l \<noteq> [] \<and> d \<noteq> [] \<and> r \<noteq> []
            \<and> CHR ''@'' \<notin> set l \<and> CHR ''@'' \<notin> set d \<and> CHR ''/'' \<notin> set d
            \<and> CHR ''@'' \<notin> set r)"
proof -
  let ?P = "\<lambda>c. c \<noteq> CHR ''@''" and ?Q = "\<lambda>c. c \<noteq> CHR ''@'' \<and> c \<noteq> CHR ''/''"
  define l where "l = takeWhile ?P s"
  define rest where "rest = dropWhile ?P s"
  define d where "d = takeWhile ?Q (tl rest)"
  define tail where "tail = dropWhile ?Q (tl rest)"
  from assms have l: "l \<noteq> []" and rest: "rest \<noteq> []" and d: "d \<noteq> []"
    and tail: "tail = [] \<or> (hd tail = CHR ''/'' \<and> tl tail \<noteq> [] \<and> CHR ''@'' \<notin> set (tl tail))"
    unfolding JID_PATTERN_match_def Let_def l_def rest_def d_def tail_def by simp_all
  from rest have "\<not> ?P (hd rest)"
    unfolding rest_def by (rule hd_dropWhile)
  with rest obtain a where r: "rest = CHR ''@'' # a"
    by (cases rest) auto
  have "s = l @ rest"
    unfolding l_def rest_def by simp
  with r have s: "s = l @ CHR ''@'' # a" by simp
  have t: "a = d @ tail"
    unfolding d_def tail_def r by simp
  have nl: "CHR ''@'' \<notin> set l"
    unfolding l_def using set_takeWhileD [of "CHR ''@''" ?P s] by blast
  have nd: "CHR ''@'' \<notin> set d" "CHR ''/'' \<notin> set d"
    unfolding d_def
    using set_takeWhileD [of "CHR ''@''" ?Q "tl rest"] set_takeWhileD [of "CHR ''/''" ?Q "tl rest"]
    by blast+
  from tail show ?thesis
  proof
    assume "tail = []"
    with t s have "s = l @ CHR ''@'' # d" by simp
    with l d nl nd show ?thesis by blast
  next
    assume a: "hd tail = CHR ''/'' \<and> tl tail \<noteq> [] \<and> CHR ''@'' \<notin> set (tl tail)"
    then obtain r' where tl: "tail = CHR ''/'' # r'" and r': "r' \<noteq> []" "CHR ''@'' \<notin> set r'"
      by (cases tail) auto
    from t s tl have "s = l @ CHR ''@'' # d @ CHR ''/'' # r'" by simp
    with l d nl nd r' show ?thesis by blast
  qed
qed

lemma JID_PATTERN_match_iff:
  "JID_PATTERN_match s =
     ((\<exists>l d. s = l @ CHR ''@'' # d \<and> l \<noteq> [] \<and> d \<noteq> [] \<and> CHR ''@'' \<notin> set l
          \<and> CHR ''@'' \<notin> set d \<and> CHR ''/'' \<notin> set d)
      \<or> (\<exists>l d r. s = l @ CHR ''@'' # d @ CHR ''/'' # r \<and> l \<noteq> [] \<and> d \<noteq> [] \<and> r \<noteq> []
          \<and> CHR ''@'' \<notin> set l \<and> CHR ''@'' \<notin> set d \<and> CHR ''/'' \<notin> set d
          \<and> CHR ''@'' \<notin> set r))"
proof
  assume "JID_PATTERN_match s"
  then show "(\<exists>l d. s = l @ CHR ''@'' # d \<and> l \<noteq> [] \<and> d \<noteq> [] \<and> CHR ''@'' \<notin> set l
          \<and> CHR ''@'' \<notin> set d \<and> CHR ''/'' \<notin> set d)
      \<or> (\<exists>l d r. s = l @ CHR ''@'' # d @ CHR ''/'' # r \<and> l \<noteq> [] \<and> d \<noteq> [] \<and> r \<noteq> []
          \<and> CHR ''@'' \<notin> set l \<and> CHR ''@'' \<notin> set d \<and> CHR ''/'' \<notin> set d
          \<and> CHR ''@'' \<notin> set r)"
    by (rule JID_PATTERN_match_parts)
next
  assume "(\<exists>l d. s = l @ CHR ''@'' # d \<and> l \<noteq> [] \<and> d \<noteq> [] \<and> CHR ''@'' \<notin> set l
          \<and> CHR ''@'' \<notin> set d \<and> CHR ''/'' \<notin> set d)
      \<or> (\<exists>l d r. s = l @ CHR ''@'' # d @ CHR ''/'' # r \<and> l \<noteq> [] \<and> d \<noteq> [] \<and> r \<noteq> []
          \<and> CHR ''@'' \<notin> set l \<and> CHR ''@'' \<notin> set d \<and> CHR ''/'' \<notin> set d
          \<and> CHR ''@'' \<notin> set r)"
  then show "JID_PATTERN_match s"
    by (elim disjE exE conjE) (simp_all add: JID_PATTERN_match_bare JID_PATTERN_match_full)
qed

text \<open>
  The grammar of the specification describes the same strings, except that it lets the
  resource contain \<^verbatim>\<open>@\<close>: \<^verbatim>\<open>JID_PATTERN\<close> matches exactly the strings of the grammar with
  a single \<^verbatim>\<open>@\<close>.
\<close>

lemma spec_address_grammar_bare:
  assumes "l \<noteq> []" "d \<noteq> []" "CHR ''@'' \<notin> set l" "CHR ''@'' \<notin> set d" "CHR ''/'' \<notin> set d"
  shows "spec_address_grammar (l @ CHR ''@'' # d)"
proof -
  have l: "\<forall>x\<in>set l. x \<noteq> CHR ''@''" using assms(3) by auto
  have d: "\<forall>x\<in>set d. x \<noteq> CHR ''/''" using assms(5) by auto
  have 1: "takeWhile (\<lambda>c. c \<noteq> CHR ''@'') (l @ CHR ''@'' # d) = l"
    by (rule takeWhile_stop [OF l]) simp
  have 2: "dropWhile (\<lambda>c. c \<noteq> CHR ''@'') (l @ CHR ''@'' # d) = CHR ''@'' # d"
    by (rule dropWhile_stop [OF l]) simp
  have 3: "takeWhile (\<lambda>c. c \<noteq> CHR ''/'') d = d"
    using d by simp
  have 4: "dropWhile (\<lambda>c. c \<noteq> CHR ''/'') d = []"
    using d by simp
  show ?thesis
    unfolding spec_address_grammar_def Let_def 1 2 using assms(1,2,4) by (simp add: 3 4)
qed

lemma spec_address_grammar_full:
  assumes "l \<noteq> []" "d \<noteq> []" "r \<noteq> []" "CHR ''@'' \<notin> set l" "CHR ''@'' \<notin> set d"
    "CHR ''/'' \<notin> set d"
  shows "spec_address_grammar (l @ CHR ''@'' # d @ CHR ''/'' # r)"
proof -
  have l: "\<forall>x\<in>set l. x \<noteq> CHR ''@''" using assms(4) by auto
  have d: "\<forall>x\<in>set d. x \<noteq> CHR ''/''" using assms(6) by auto
  have 1: "takeWhile (\<lambda>c. c \<noteq> CHR ''@'') (l @ CHR ''@'' # d @ CHR ''/'' # r) = l"
    by (rule takeWhile_stop [OF l]) simp
  have 2: "dropWhile (\<lambda>c. c \<noteq> CHR ''@'') (l @ CHR ''@'' # d @ CHR ''/'' # r)
           = CHR ''@'' # d @ CHR ''/'' # r"
    by (rule dropWhile_stop [OF l]) simp
  have 3: "takeWhile (\<lambda>c. c \<noteq> CHR ''/'') (d @ CHR ''/'' # r) = d"
    by (rule takeWhile_stop [OF d]) simp
  have 4: "dropWhile (\<lambda>c. c \<noteq> CHR ''/'') (d @ CHR ''/'' # r) = CHR ''/'' # r"
    by (rule dropWhile_stop [OF d]) simp
  show ?thesis
    unfolding spec_address_grammar_def Let_def 1 2 using assms(1,2,3,5) by (simp add: 3 4)
qed

lemma spec_address_grammar_parts:
  assumes "spec_address_grammar s"
  shows "(\<exists>l d. s = l @ CHR ''@'' # d \<and> l \<noteq> [] \<and> d \<noteq> [] \<and> CHR ''@'' \<notin> set l
            \<and> CHR ''@'' \<notin> set d \<and> CHR ''/'' \<notin> set d)
       \<or> (\<exists>l d r. s = l @ CHR ''@'' # d @ CHR ''/'' # r \<and> l \<noteq> [] \<and> d \<noteq> [] \<and> r \<noteq> []
            \<and> CHR ''@'' \<notin> set l \<and> CHR ''@'' \<notin> set d \<and> CHR ''/'' \<notin> set d)"
proof -
  let ?P = "\<lambda>c. c \<noteq> CHR ''@''" and ?Q = "\<lambda>c. c \<noteq> CHR ''/''"
  define l where "l = takeWhile ?P s"
  define rest where "rest = dropWhile ?P s"
  define d where "d = takeWhile ?Q (tl rest)"
  define tail where "tail = dropWhile ?Q (tl rest)"
  from assms have l: "l \<noteq> []" and rest: "rest \<noteq> []" and d: "d \<noteq> []"
    and nd: "CHR ''@'' \<notin> set d" and tail: "tail = [] \<or> tl tail \<noteq> []"
    unfolding spec_address_grammar_def Let_def l_def rest_def d_def tail_def by simp_all
  from rest have "\<not> ?P (hd rest)"
    unfolding rest_def by (rule hd_dropWhile)
  with rest obtain a where r: "rest = CHR ''@'' # a"
    by (cases rest) auto
  have "s = l @ rest"
    unfolding l_def rest_def by simp
  with r have s: "s = l @ CHR ''@'' # a" by simp
  have t: "a = d @ tail"
    unfolding d_def tail_def r by simp
  have nl: "CHR ''@'' \<notin> set l"
    unfolding l_def using set_takeWhileD [of "CHR ''@''" ?P s] by blast
  have ns: "CHR ''/'' \<notin> set d"
    unfolding d_def using set_takeWhileD [of "CHR ''/''" ?Q "tl rest"] by blast
  from tail show ?thesis
  proof
    assume "tail = []"
    with t s have "s = l @ CHR ''@'' # d" by simp
    with l d nl nd ns show ?thesis by blast
  next
    assume a: "tl tail \<noteq> []"
    then have ne: "tail \<noteq> []" by auto
    then have "\<not> ?Q (hd tail)"
      unfolding tail_def by (rule hd_dropWhile)
    with ne a obtain r' where tl: "tail = CHR ''/'' # r'" and r': "r' \<noteq> []"
      by (cases tail) auto
    from t s tl have "s = l @ CHR ''@'' # d @ CHR ''/'' # r'" by simp
    with l d nl nd ns r' show ?thesis by blast
  qed
qed

lemma count_list_pos: "x \<in> set xs \<Longrightarrow> 0 < count_list xs x"
  by (induction xs) auto

lemma JID_PATTERN_match_grammar:
  "JID_PATTERN_match s = (spec_address_grammar s \<and> count_list s CHR ''@'' = 1)"
proof
  assume "JID_PATTERN_match s"
  from JID_PATTERN_match_parts [OF this]
  show "spec_address_grammar s \<and> count_list s CHR ''@'' = 1"
    by (elim disjE exE conjE)
       (simp_all add: spec_address_grammar_bare spec_address_grammar_full)
next
  assume a: "spec_address_grammar s \<and> count_list s CHR ''@'' = 1"
  from spec_address_grammar_parts [OF a [THEN conjunct1]]
  show "JID_PATTERN_match s"
  proof (elim disjE exE conjE)
    fix l d
    assume "s = l @ CHR ''@'' # d" "l \<noteq> []" "d \<noteq> []" "CHR ''@'' \<notin> set l" "CHR ''@'' \<notin> set d"
      "CHR ''/'' \<notin> set d"
    then show ?thesis
      by (simp add: JID_PATTERN_match_bare)
  next
    fix l d r
    assume s: "s = l @ CHR ''@'' # d @ CHR ''/'' # r" and p: "l \<noteq> []" "d \<noteq> []" "r \<noteq> []"
      "CHR ''@'' \<notin> set l" "CHR ''@'' \<notin> set d" "CHR ''/'' \<notin> set d"
    have "CHR ''@'' \<notin> set r"
    proof
      assume "CHR ''@'' \<in> set r"
      from count_list_pos [OF this] a s p(4,5) show False
        by simp
    qed
    with s p show ?thesis
      by (simp add: JID_PATTERN_match_full)
  qed
qed

lemma JID_PATTERN_match_imp_grammar: "\<not> spec_address_grammar s \<Longrightarrow> \<not> JID_PATTERN_match s"
  by (simp add: JID_PATTERN_match_grammar)


section \<open>Construction of Settings\<close>

lemma validate_jid_Inl: "validate_jid j = Inl e \<Longrightarrow> cls e = ValueError"
  by (auto simp: validate_jid_def split: if_splits)

lemma validate_all_Inl: "validate_all js = Inl e \<Longrightarrow> cls e = ValueError"
  by (induction js) (auto split: sum.splits dest: validate_jid_Inl)

lemma parse_allowed_jids_Inl: "parse_allowed_jids v = Inl e \<Longrightarrow> cls e = ValueError"
  by (auto simp: parse_allowed_jids_def Let_def split: option.splits if_splits sum.splits
           dest: validate_all_Inl)

lemma int_of_str_Inl: "int_of_str bi s = Inl e \<Longrightarrow> cls e = ValueError"
  by (auto simp: int_of_str_def split: sum.splits)

lemma float_of_str_Inl: "float_of_str bi s = Inl e \<Longrightarrow> cls e = ValueError"
  by (auto simp: float_of_str_def split: sum.splits)

lemma post_init_Inl: "post_init s = Inl e \<Longrightarrow> cls e = ValueError"
  by (auto simp: post_init_def split: if_splits sum.splits dest: validate_jid_Inl)

lemma post_init_Inr_iff:
  "(post_init s = Inr s') =
   (s' = s \<and> password s \<noteq> [] \<and> JID_PATTERN_match (jid s)
    \<and> JID_PATTERN_match (default_receiver s))"
  by (auto simp: post_init_def validate_jid_def JID_PATTERN_match_def)

lemma JID_PATTERN_match_Nil: "\<not> JID_PATTERN_match []"
  by (simp add: JID_PATTERN_match_def)

lemma not_Inr_ValueError:
  assumes "\<And>e. r = Inl e \<Longrightarrow> cls e = ValueError" and "\<And>x. r \<noteq> Inr x"
  shows "\<exists>m. r = Inl (Exn ValueError m)"
proof (cases r)
  case (Inl e)
  with assms(1) have "cls e = ValueError" by simp
  then have "e = Exn ValueError (msg e)" by (cases e) simp
  with Inl show ?thesis by blast
next
  case (Inr x)
  with assms(2) [of x] show ?thesis by simp
qed

lemma from_env_Inl: "from_env bi env = Inl e \<Longrightarrow> cls e = ValueError"
  by (auto simp: from_env_def Let_def split: sum.splits
           dest: parse_allowed_jids_Inl int_of_str_Inl float_of_str_Inl post_init_Inl)

lemma from_env_Inr:
  "from_env bi env = Inr s \<Longrightarrow>
   post_init s = Inr s \<and> jid s = getenv env ENV_JID [] \<and> password s = getenv env ENV_PASSWORD []
   \<and> default_receiver s = getenv env ENV_DEFAULT_RECEIVER []
   \<and> debug s = parse_bool (env ENV_DEBUG) DEFAULT_DEBUG"
  by (auto simp: from_env_def Let_def post_init_Inr_iff split: sum.splits)

lemma from_dict_Inl: "from_dict bi data = Inl e \<Longrightarrow> cls e = ValueError"
  by (auto simp: from_dict_def coerce_allowed_jids_def int_or_default_def float_or_default_def
                 Let_def
           split: sum.splits option.splits jids_obj.splits if_splits
           dest: parse_allowed_jids_Inl int_of_str_Inl float_of_str_Inl post_init_Inl)

lemma from_dict_Inr:
  "from_dict bi data = Inr s \<Longrightarrow>
   post_init s = Inr s \<and> jid s = py_str (dict_get (d_jid data) (PyStr []))
   \<and> password s = py_str (dict_get (d_password data) (PyStr []))
   \<and> default_receiver s = py_str (dict_get (d_default_receiver data) (PyStr []))
   \<and> debug s = py_bool (dict_get (d_debug data) (PyBool DEFAULT_DEBUG))"
  by (auto simp: from_dict_def post_init_Inr_iff split: sum.splits)

lemma post_init_grammar:
  assumes "password s \<noteq> []"
    and "spec_address_grammar (jid s)" "count_list (jid s) CHR ''@'' = 1"
    and "spec_address_grammar (default_receiver s)" "count_list (default_receiver s) CHR ''@'' = 1"
  shows "post_init s = Inr s"
  using assms by (simp add: post_init_Inr_iff JID_PATTERN_match_grammar)

lemma post_init_bad:
  assumes "jid s = [] \<or> password s = [] \<or> default_receiver s = []
      \<or> \<not> spec_address_grammar (jid s) \<or> \<not> spec_address_grammar (default_receiver s)"
  shows "post_init s \<noteq> Inr x"
  using assms by (auto simp: post_init_Inr_iff JID_PATTERN_match_Nil JID_PATTERN_match_grammar)

lemma Inl_ValueError_not_ConfigurationError:
  "\<exists>m. r = Inl (Exn ValueError m) \<Longrightarrow> \<not> raises r ConfigurationError"
  by (auto simp: raises_def isinstance_def)

text \<open>
  C4, as the code has it. Constructing \<^verbatim>\<open>Settings\<close> with an empty \<^verbatim>\<open>jid\<close>, \<^verbatim>\<open>password\<close>
  or \<^verbatim>\<open>default_receiver\<close>, or with a \<^verbatim>\<open>jid\<close> or \<^verbatim>\<open>default_receiver\<close> that fails the
  grammar \<^verbatim>\<open>local-part@domain-part[/resource]\<close>, always fails, directly and through
  \<^verbatim>\<open>from_env\<close> and \<^verbatim>\<open>from_dict\<close>, and the exception is the built-in \<^verbatim>\<open>ValueError\<close>, which
  is no instance of \<^verbatim>\<open>ConfigurationError\<close>. \<^verbatim>\<open>initialize\<close> without settings then raises it
  with the bot unchanged and nothing done on the transport. Construction succeeds, on each of
  the three ways, with a non-empty password and two addresses that meet the grammar and
  hold a single \<^verbatim>\<open>@\<close>, when the allow-list and the four numbers can be read; the result
  holds the fields as given.
\<close>

theorem settings_construction_errors:
  "(jid s = [] \<or> password s = [] \<or> default_receiver s = []
      \<or> \<not> spec_address_grammar (jid s) \<or> \<not> spec_address_grammar (default_receiver s) \<longrightarrow>
      (\<exists>m. post_init s = Inl (Exn ValueError m)) \<and> \<not> raises (post_init s) ConfigurationError)
   \<and> (password s \<noteq> []
      \<and> spec_address_grammar (jid s) \<and> count_list (jid s) CHR ''@'' = 1
      \<and> spec_address_grammar (default_receiver s)
      \<and> count_list (default_receiver s) CHR ''@'' = 1 \<longrightarrow>
      post_init s = Inr s)
   \<and> (getenv env ENV_JID [] = [] \<or> getenv env ENV_PASSWORD [] = []
      \<or> getenv env ENV_DEFAULT_RECEIVER [] = []
      \<or> \<not> spec_address_grammar (getenv env ENV_JID [])
      \<or> \<not> spec_address_grammar (getenv env ENV_DEFAULT_RECEIVER []) \<longrightarrow>
      (\<exists>m. from_env bi env = Inl (Exn ValueError m))
      \<and> \<not> raises (from_env bi env) ConfigurationError
      \<and> (\<not> initialized b \<longrightarrow>
           (\<exists>m. initialize bi env tr ticks b None = Some (b, [], Some (Exn ValueError m)))))
   \<and> (getenv env ENV_PASSWORD [] \<noteq> []
      \<and> spec_address_grammar (getenv env ENV_JID [])
      \<and> count_list (getenv env ENV_JID []) CHR ''@'' = 1
      \<and> spec_address_grammar (getenv env ENV_DEFAULT_RECEIVER [])
      \<and> count_list (getenv env ENV_DEFAULT_RECEIVER []) CHR ''@'' = 1
      \<and> parse_allowed_jids (env ENV_ALLOWED_JIDS) = Inr aj
      \<and> py_int bi (getenv env ENV_CONNECT_TIMEOUT (str_int DEFAULT_CONNECT_TIMEOUT)) = Inr ct
      \<and> py_int bi (getenv env ENV_KEEPALIVE_INTERVAL (str_int DEFAULT_KEEPALIVE_INTERVAL))
          = Inr ki
      \<and> py_float bi (getenv env ENV_RETRY_DELAY ''5.0'') = Inr rd
      \<and> py_float bi (getenv env ENV_SEND_DELAY ''0.1'') = Inr sd \<longrightarrow>
      from_env bi env =
        Inr \<lparr>jid = getenv env ENV_JID [], password = getenv env ENV_PASSWORD [],
             default_receiver = getenv env ENV_DEFAULT_RECEIVER [],
             base_url = getenv env ENV_BASE_URL [], allowed_jids = aj,
             connect_timeout = ct, keepalive_interval = ki, retry_delay = rd, send_delay = sd,
             resource = getenv env ENV_RESOURCE DEFAULT_RESOURCE,
             debug = parse_bool (env ENV_DEBUG) DEFAULT_DEBUG\<rparr>)
   \<and> (py_str (dict_get (d_jid data) (PyStr [])) = []
      \<or> py_str (dict_get (d_password data) (PyStr [])) = []
      \<or> py_str (dict_get (d_default_receiver data) (PyStr [])) = []
      \<or> \<not> spec_address_grammar (py_str (dict_get (d_jid data) (PyStr [])))
      \<or> \<not> spec_address_grammar (py_str (dict_get (d_default_receiver data) (PyStr []))) \<longrightarrow>
      (\<exists>m. from_dict bi data = Inl (Exn ValueError m))
      \<and> \<not> raises (from_dict bi data) ConfigurationError)
   \<and> (py_str (dict_get (d_password data) (PyStr [])) \<noteq> []
      \<and> spec_address_grammar (py_str (dict_get (d_jid data) (PyStr [])))
      \<and> count_list (py_str (dict_get (d_jid data) (PyStr []))) CHR ''@'' = 1
      \<and> spec_address_grammar (py_str (dict_get (d_default_receiver data) (PyStr [])))
      \<and> count_list (py_str (dict_get (d_default_receiver data) (PyStr []))) CHR ''@'' = 1
      \<and> coerce_allowed_jids (d_allowed_jids data) = Inr aj'
      \<and> int_or_default bi (d_connect_timeout data) DEFAULT_CONNECT_TIMEOUT = Inr ct'
      \<and> int_or_default bi (d_keepalive_interval data) DEFAULT_KEEPALIVE_INTERVAL = Inr ki'
      \<and> float_or_default bi (d_retry_delay data) DEFAULT_RETRY_DELAY = Inr rd'
      \<and> float_or_default bi (d_send_delay data) DEFAULT_SEND_DELAY = Inr sd' \<longrightarrow>
      from_dict bi data =
        Inr \<lparr>jid = py_str (dict_get (d_jid data) (PyStr [])),
             password = py_str (dict_get (d_password data) (PyStr [])),
             default_receiver = py_str (dict_get (d_default_receiver data) (PyStr [])),
             base_url = py_str (dict_get (d_base_url data) (PyStr [])), allowed_jids = aj',
             connect_timeout = ct', keepalive_interval = ki', retry_delay = rd',
             send_delay = sd',
             resource = py_str (dict_get (d_resource data) (PyStr DEFAULT_RESOURCE)),
             debug = py_bool (dict_get (d_debug data) (PyBool DEFAULT_DEBUG))\<rparr>)"
proof (intro conjI impI)
  assume bad: "jid s = [] \<or> password s = [] \<or> default_receiver s = []
      \<or> \<not> spec_address_grammar (jid s) \<or> \<not> spec_address_grammar (default_receiver s)"
  have "\<And>x. post_init s \<noteq> Inr x"
    by (rule post_init_bad [OF bad])
  then show v: "\<exists>m. post_init s = Inl (Exn ValueError m)"
    by (intro not_Inr_ValueError post_init_Inl)
  then show "\<not> raises (post_init s) ConfigurationError"
    by (rule Inl_ValueError_not_ConfigurationError)
next
  assume "password s \<noteq> []
      \<and> spec_address_grammar (jid s) \<and> count_list (jid s) CHR ''@'' = 1
      \<and> spec_address_grammar (default_receiver s)
      \<and> count_list (default_receiver s) CHR ''@'' = 1"
  then show "post_init s = Inr s"
    by (simp add: post_init_grammar)
next
  assume bad: "getenv env ENV_JID [] = [] \<or> getenv env ENV_PASSWORD [] = []
      \<or> getenv env ENV_DEFAULT_RECEIVER [] = []
      \<or> \<not> spec_address_grammar (getenv env ENV_JID [])
      \<or> \<not> spec_address_grammar (getenv env ENV_DEFAULT_RECEIVER [])"
  have "\<And>x. from_env bi env \<noteq> Inr x"
  proof
    fix x assume "from_env bi env = Inr x"
    from from_env_Inr [OF this] bad post_init_bad [of x x] show False
      by simp
  qed
  then show v: "\<exists>m. from_env bi env = Inl (Exn ValueError m)"
    by (intro not_Inr_ValueError from_env_Inl)
  then show "\<not> raises (from_env bi env) ConfigurationError"
    by (rule Inl_ValueError_not_ConfigurationError)
  assume "\<not> initialized b"
  with v show "\<exists>m. initialize bi env tr ticks b None = Some (b, [], Some (Exn ValueError m))"
    by (auto simp: initialize_def)
next
  assume good: "getenv env ENV_PASSWORD [] \<noteq> []
      \<and> spec_address_grammar (getenv env ENV_JID [])
      \<and> count_list (getenv env ENV_JID []) CHR ''@'' = 1
      \<and> spec_address_grammar (getenv env ENV_DEFAULT_RECEIVER [])
      \<and> count_list (getenv env ENV_DEFAULT_RECEIVER []) CHR ''@'' = 1
      \<and> parse_allowed_jids (env ENV_ALLOWED_JIDS) = Inr aj
      \<and> py_int bi (getenv env ENV_CONNECT_TIMEOUT (str_int DEFAULT_CONNECT_TIMEOUT)) = Inr ct
      \<and> py_int bi (getenv env ENV_KEEPALIVE_INTERVAL (str_int DEFAULT_KEEPALIVE_INTERVAL))
          = Inr ki
      \<and> py_float bi (getenv env ENV_RETRY_DELAY ''5.0'') = Inr rd
      \<and> py_float bi (getenv env ENV_SEND_DELAY ''0.1'') = Inr sd"
  then show "from_env bi env =
        Inr \<lparr>jid = getenv env ENV_JID [], password = getenv env ENV_PASSWORD [],
             default_receiver = getenv env ENV_DEFAULT_RECEIVER [],
             base_url = getenv env ENV_BASE_URL [], allowed_jids = aj,
             connect_timeout = ct, keepalive_interval = ki, retry_delay = rd, send_delay = sd,
             resource = getenv env ENV_RESOURCE DEFAULT_RESOURCE,
             debug = parse_bool (env ENV_DEBUG) DEFAULT_DEBUG\<rparr>"
    by (simp add: from_env_def int_of_str_def float_of_str_def post_init_grammar)
next
  assume bad: "py_str (dict_get (d_jid data) (PyStr [])) = []
      \<or> py_str (dict_get (d_password data) (PyStr [])) = []
      \<or> py_str (dict_get (d_default_receiver data) (PyStr [])) = []
      \<or> \<not> spec_address_grammar (py_str (dict_get (d_jid data) (PyStr [])))
      \<or> \<not> spec_address_grammar (py_str (dict_get (d_default_receiver data) (PyStr [])))"
  have "\<And>x. from_dict bi data \<noteq> Inr x"
  proof
    fix x assume "from_dict bi data = Inr x"
    from from_dict_Inr [OF this] bad post_init_bad [of x x] show False
      by simp
  qed
  then show v: "\<exists>m. from_dict bi data = Inl (Exn ValueError m)"
    by (intro not_Inr_ValueError from_dict_Inl)
  then show "\<not> raises (from_dict bi data) ConfigurationError"
    by (rule Inl_ValueError_not_ConfigurationError)
next
  assume good: "py_str (dict_get (d_password data) (PyStr [])) \<noteq> []
      \<and> spec_address_grammar (py_str (dict_get (d_jid data) (PyStr [])))
      \<and> count_list (py_str (dict_get (d_jid data) (PyStr []))) CHR ''@'' = 1
      \<and> spec_address_grammar (py_str (dict_get (d_default_receiver data) (PyStr [])))
      \<and> count_list (py_str (dict_get (d_default_receiver data) (PyStr []))) CHR ''@'' = 1
      \<and> coerce_allowed_jids (d_allowed_jids data) = Inr aj'
      \<and> int_or_default bi (d_connect_timeout data) DEFAULT_CONNECT_TIMEOUT = Inr ct'
      \<and> int_or_default bi (d_keepalive_interval data) DEFAULT_KEEPALIVE_INTERVAL = Inr ki'
      \<and> float_or_default bi (d_retry_delay data) DEFAULT_RETRY_DELAY = Inr rd'
      \<and> float_or_default bi (d_send_delay data) DEFAULT_SEND_DELAY = Inr sd'"
  then show "from_dict bi data =
        Inr \<lparr>jid = py_str (dict_get (d_jid data) (PyStr [])),
             password = py_str (dict_get (d_password data) (PyStr [])),
             default_receiver = py_str (dict_get (d_default_receiver data) (PyStr [])),
             base_url = py_str (dict_get (d_base_url data) (PyStr [])), allowed_jids = aj',
             connect_timeout = ct', keepalive_interval = ki', retry_delay = rd',
             send_delay = sd',
             resource = py_str (dict_get (d_resource data) (PyStr DEFAULT_RESOURCE)),
             debug = py_bool (dict_get (d_debug data) (PyBool DEFAULT_DEBUG))\<rparr>"
    by (simp add: from_dict_def post_init_grammar)
qed

lemma str_int_defaults:
  "str_int DEFAULT_CONNECT_TIMEOUT = ''30''" "str_int DEFAULT_KEEPALIVE_INTERVAL = ''60''"
  unfolding DEFAULT_CONNECT_TIMEOUT_def DEFAULT_KEEPALIVE_INTERVAL_def by code_simp+

lemma decimal_int_defaults:
  "decimal_int ''30'' = Inr 30" "decimal_int ''60'' = Inr 60"
  by code_simp+

lemma decimal_float_defaults:
  "decimal_float ''5.0'' = Inr 5" "decimal_float ''0.1'' = Inr (1 / 10)"
  by (simp_all add: decimal_float_def decimal_nat_def digit_of_def split_chr_def)


lemma getenv_empty: "getenv Map.empty k d = d"
  by (simp add: getenv_def)

lemma grammar_examples:
  "\<not> spec_address_grammar ''invalid-jid''"
  "spec_address_grammar ''bot@example.com''" "count_list ''bot@example.com'' CHR ''@'' = 1"
  "spec_address_grammar ''user@example.com''" "count_list ''user@example.com'' CHR ''@'' = 1"
  "spec_address_grammar ''bot@example.com/home@work''"
  "\<not> JID_PATTERN_match ''bot@example.com/home@work''"
  by (simp_all add: spec_address_grammar_def JID_PATTERN_match_def)

theorem settings_construction_errors_witness:
  "\<not> spec_address_grammar (jid (minimal_settings\<lparr>jid := ''invalid-jid''\<rparr>))
   \<and> (\<exists>m. post_init (minimal_settings\<lparr>jid := ''invalid-jid''\<rparr>) = Inl (Exn ValueError m))
   \<and> post_init valid_settings = Inr valid_settings
   \<and> getenv Map.empty ENV_JID [] = []
   \<and> int_of_str decimal_builtins (getenv Map.empty ENV_CONNECT_TIMEOUT
         (str_int DEFAULT_CONNECT_TIMEOUT)) = Inr 30
   \<and> from_env decimal_builtins Map.empty = Inl (Exn ValueError ''JID is required'')
   \<and> (\<exists>m. initialize decimal_builtins Map.empty quiet_transport [] new_bot None
             = Some (new_bot, [], Some (Exn ValueError m)))
   \<and> from_env decimal_builtins
        [ENV_JID \<mapsto> ''bot@example.com'', ENV_PASSWORD \<mapsto> ''secret'',
         ENV_DEFAULT_RECEIVER \<mapsto> ''user@example.com'']
       = Inr minimal_settings
   \<and> (\<exists>m. from_dict decimal_builtins
             \<lparr>d_jid = None, d_password = None, d_default_receiver = None, d_base_url = None,
              d_allowed_jids = None, d_connect_timeout = None, d_keepalive_interval = None,
              d_retry_delay = None, d_send_delay = None, d_resource = None, d_debug = None\<rparr>
             = Inl (Exn ValueError m))
   \<and> from_dict decimal_builtins
        \<lparr>d_jid = Some (PyStr ''bot@example.com''), d_password = Some (PyStr ''secret''),
         d_default_receiver = Some (PyStr ''user@example.com''), d_base_url = None,
         d_allowed_jids = None, d_connect_timeout = Some (PyInt 30),
         d_keepalive_interval = Some (PyStr ''60''), d_retry_delay = None,
         d_send_delay = None, d_resource = None, d_debug = None\<rparr>
       = Inr minimal_settings"
proof -
  let ?bad = "minimal_settings\<lparr>jid := ''invalid-jid''\<rparr>"
  let ?env = "[ENV_JID \<mapsto> ''bot@example.com'', ENV_PASSWORD \<mapsto> ''secret'',
         ENV_DEFAULT_RECEIVER \<mapsto> ''user@example.com'']"
  let ?nodata = "\<lparr>d_jid = None, d_password = None, d_default_receiver = None,
              d_base_url = None, d_allowed_jids = None, d_connect_timeout = None,
              d_keepalive_interval = None, d_retry_delay = None, d_send_delay = None,
              d_resource = None, d_debug = None\<rparr>"
  let ?data = "\<lparr>d_jid = Some (PyStr ''bot@example.com''), d_password = Some (PyStr ''secret''),
         d_default_receiver = Some (PyStr ''user@example.com''), d_base_url = None,
         d_allowed_jids = None, d_connect_timeout = Some (PyInt 30),
         d_keepalive_interval = Some (PyStr ''60''), d_retry_delay = None,
         d_send_delay = None, d_resource = None, d_debug = None\<rparr>"
  note F = settings_construction_errors
      [where s = ?bad and env = Map.empty and bi = decimal_builtins and b = new_bot
         and tr = quiet_transport and ticks = "[]" and data = ?nodata]
  note G = settings_construction_errors
      [where s = valid_settings and env = ?env and bi = decimal_builtins and data = ?data
         and aj = None and ct = 30 and ki = 60 and rd = 5 and sd = "1 / 10"
         and aj' = None and ct' = 30 and ki' = 60 and rd' = 5 and sd' = "1 / 10"]
  have a: "\<not> spec_address_grammar (jid ?bad)"
    by (simp add: grammar_examples)
  from F [THEN conjunct1] a
  have 1: "\<exists>m. post_init ?bad = Inl (Exn ValueError m)"
    by simp
  have "password valid_settings \<noteq> []
      \<and> spec_address_grammar (jid valid_settings) \<and> count_list (jid valid_settings) CHR ''@'' = 1
      \<and> spec_address_grammar (default_receiver valid_settings)
      \<and> count_list (default_receiver valid_settings) CHR ''@'' = 1"
    by (simp add: valid_settings_def grammar_examples)
  with G [THEN conjunct2, THEN conjunct1]
  have 2: "post_init valid_settings = Inr valid_settings"
    by (rule mp)
  have c: "getenv Map.empty ENV_JID [] = []"
    by (rule getenv_empty)
  have 3: "int_of_str decimal_builtins (getenv Map.empty ENV_CONNECT_TIMEOUT
         (str_int DEFAULT_CONNECT_TIMEOUT)) = Inr 30"
    by (simp add: getenv_empty str_int_defaults int_of_str_def decimal_builtins_def
          decimal_int_defaults)
  have 4: "from_env decimal_builtins Map.empty = Inl (Exn ValueError ''JID is required'')"
    by (simp add: from_env_def getenv_empty str_int_defaults int_of_str_def float_of_str_def
          decimal_builtins_def decimal_int_defaults decimal_float_defaults
          parse_allowed_jids_def post_init_def ERR_JID_REQUIRED_def)
  have e: "\<not> initialized new_bot"
    by (simp add: new_bot_def)
  from F [THEN conjunct2, THEN conjunct2, THEN conjunct1] c e
  have 5: "\<exists>m. initialize decimal_builtins Map.empty quiet_transport [] new_bot None
             = Some (new_bot, [], Some (Exn ValueError m))"
    by simp
  have g: "getenv ?env ENV_JID [] = ''bot@example.com''"
    "getenv ?env ENV_PASSWORD [] = ''secret''"
    "getenv ?env ENV_DEFAULT_RECEIVER [] = ''user@example.com''"
    "getenv ?env ENV_BASE_URL [] = []"
    "?env ENV_ALLOWED_JIDS = None"
    "getenv ?env ENV_CONNECT_TIMEOUT ''30'' = ''30''"
    "getenv ?env ENV_KEEPALIVE_INTERVAL ''60'' = ''60''"
    "getenv ?env ENV_RETRY_DELAY ''5.0'' = ''5.0''"
    "getenv ?env ENV_SEND_DELAY ''0.1'' = ''0.1''"
    "getenv ?env ENV_RESOURCE DEFAULT_RESOURCE = DEFAULT_RESOURCE"
    "?env ENV_DEBUG = None"
    by (simp_all add: getenv_def ENV_JID_def ENV_PASSWORD_def ENV_DEFAULT_RECEIVER_def
          ENV_BASE_URL_def ENV_ALLOWED_JIDS_def ENV_CONNECT_TIMEOUT_def
          ENV_KEEPALIVE_INTERVAL_def ENV_RETRY_DELAY_def ENV_SEND_DELAY_def ENV_RESOURCE_def
          ENV_DEBUG_def)
  have "getenv ?env ENV_PASSWORD [] \<noteq> []
      \<and> spec_address_grammar (getenv ?env ENV_JID [])
      \<and> count_list (getenv ?env ENV_JID []) CHR ''@'' = 1
      \<and> spec_address_grammar (getenv ?env ENV_DEFAULT_RECEIVER [])
      \<and> count_list (getenv ?env ENV_DEFAULT_RECEIVER []) CHR ''@'' = 1
      \<and> parse_allowed_jids (?env ENV_ALLOWED_JIDS) = Inr None
      \<and> py_int decimal_builtins (getenv ?env ENV_CONNECT_TIMEOUT (str_int DEFAULT_CONNECT_TIMEOUT))
          = Inr 30
      \<and> py_int decimal_builtins
            (getenv ?env ENV_KEEPALIVE_INTERVAL (str_int DEFAULT_KEEPALIVE_INTERVAL))
          = Inr 60
      \<and> py_float decimal_builtins (getenv ?env ENV_RETRY_DELAY ''5.0'') = Inr 5
      \<and> py_float decimal_builtins (getenv ?env ENV_SEND_DELAY ''0.1'') = Inr (1 / 10)"
    unfolding str_int_defaults g
    by (simp add: grammar_examples parse_allowed_jids_def decimal_builtins_def
          decimal_int_defaults decimal_float_defaults)
  with G [THEN conjunct2, THEN conjunct2, THEN conjunct2, THEN conjunct1]
  have "from_env decimal_builtins ?env =
        Inr \<lparr>jid = getenv ?env ENV_JID [], password = getenv ?env ENV_PASSWORD [],
             default_receiver = getenv ?env ENV_DEFAULT_RECEIVER [],
             base_url = getenv ?env ENV_BASE_URL [], allowed_jids = None,
             connect_timeout = 30, keepalive_interval = 60, retry_delay = 5,
             send_delay = 1 / 10,
             resource = getenv ?env ENV_RESOURCE DEFAULT_RESOURCE,
             debug = parse_bool (?env ENV_DEBUG) DEFAULT_DEBUG\<rparr>"
    by (rule mp)
  then have 6: "from_env decimal_builtins ?env = Inr minimal_settings"
    unfolding g
    by (simp add: minimal_settings_def parse_bool_def DEFAULT_CONNECT_TIMEOUT_def
          DEFAULT_KEEPALIVE_INTERVAL_def DEFAULT_RETRY_DELAY_def DEFAULT_SEND_DELAY_def)
  have d: "py_str (dict_get (d_jid ?nodata) (PyStr [])) = []"
    by (simp add: dict_get_def)
  from F [THEN conjunct2, THEN conjunct2, THEN conjunct2, THEN conjunct2, THEN conjunct1] d
  have 7: "\<exists>m. from_dict decimal_builtins ?nodata = Inl (Exn ValueError m)"
    by simp
  have "py_str (dict_get (d_password ?data) (PyStr [])) \<noteq> []
      \<and> spec_address_grammar (py_str (dict_get (d_jid ?data) (PyStr [])))
      \<and> count_list (py_str (dict_get (d_jid ?data) (PyStr []))) CHR ''@'' = 1
      \<and> spec_address_grammar (py_str (dict_get (d_default_receiver ?data) (PyStr [])))
      \<and> count_list (py_str (dict_get (d_default_receiver ?data) (PyStr []))) CHR ''@'' = 1
      \<and> coerce_allowed_jids (d_allowed_jids ?data) = Inr None
      \<and> int_or_default decimal_builtins (d_connect_timeout ?data) DEFAULT_CONNECT_TIMEOUT
          = Inr 30
      \<and> int_or_default decimal_builtins (d_keepalive_interval ?data) DEFAULT_KEEPALIVE_INTERVAL
          = Inr 60
      \<and> float_or_default decimal_builtins (d_retry_delay ?data) DEFAULT_RETRY_DELAY = Inr 5
      \<and> float_or_default decimal_builtins (d_send_delay ?data) DEFAULT_SEND_DELAY
          = Inr (1 / 10)"
    using str_int_defaults(1) [unfolded DEFAULT_CONNECT_TIMEOUT_def]
    by (simp add: dict_get_def grammar_examples coerce_allowed_jids_def int_or_default_def
          float_or_default_def int_of_str_def decimal_builtins_def decimal_int_defaults
          DEFAULT_RETRY_DELAY_def DEFAULT_SEND_DELAY_def)
  with G [THEN conjunct2, THEN conjunct2, THEN conjunct2, THEN conjunct2, THEN conjunct2]
  have "from_dict decimal_builtins ?data =
        Inr \<lparr>jid = py_str (dict_get (d_jid ?data) (PyStr [])),
             password = py_str (dict_get (d_password ?data) (PyStr [])),
             default_receiver = py_str (dict_get (d_default_receiver ?data) (PyStr [])),
             base_url = py_str (dict_get (d_base_url ?data) (PyStr [])), allowed_jids = None,
             connect_timeout = 30, keepalive_interval = 60, retry_delay = 5,
             send_delay = 1 / 10,
             resource = py_str (dict_get (d_resource ?data) (PyStr DEFAULT_RESOURCE)),
             debug = py_bool (dict_get (d_debug ?data) (PyBool DEFAULT_DEBUG))\<rparr>"
    by (rule mp)
  then have 8: "from_dict decimal_builtins ?data = Inr minimal_settings"
    by (simp add: dict_get_def minimal_settings_def DEFAULT_CONNECT_TIMEOUT_def
          DEFAULT_KEEPALIVE_INTERVAL_def DEFAULT_RETRY_DELAY_def DEFAULT_SEND_DELAY_def)
  show ?thesis
    by (intro conjI) (rule a 1 2 c 3 4 5 6 7 8)+
qed

text \<open>
  C4, as the claim states it, fails twice. The construction with an empty \<^verbatim>\<open>jid\<close> raises
  \<^verbatim>\<open>ValueError("JID is required")\<close>, not a \<^verbatim>\<open>ConfigurationError\<close>. And
  \<^verbatim>\<open>bot@example.com/home@work\<close> meets the grammar \<^verbatim>\<open>local-part@domain-part[/resource]\<close>,
  with local-part \<^verbatim>\<open>bot\<close>, domain-part \<^verbatim>\<open>example.com\<close> and resource \<^verbatim>\<open>home@work\<close>, yet the
  construction with this \<^verbatim>\<open>jid\<close> and the other fields well-formed fails: \<^verbatim>\<open>JID_PATTERN\<close>
  allows no \<^verbatim>\<open>@\<close> in the resource.
\<close>

theorem settings_error_class_counterexample:
  "post_init (minimal_settings\<lparr>jid := []\<rparr>) = Inl (Exn ValueError ''JID is required'')
   \<and> \<not> raises (post_init (minimal_settings\<lparr>jid := []\<rparr>)) ConfigurationError
   \<and> spec_address_grammar ''bot@example.com/home@work''
   \<and> post_init (minimal_settings\<lparr>jid := ''bot@example.com/home@work''\<rparr>)
       = Inl (Exn ValueError ''Invalid JID format: bot@example.com/home@work'')"
proof (intro conjI)
  show "post_init (minimal_settings\<lparr>jid := []\<rparr>) = Inl (Exn ValueError ''JID is required'')"
    by (simp add: post_init_def minimal_settings_def ERR_JID_REQUIRED_def)
  then show "\<not> raises (post_init (minimal_settings\<lparr>jid := []\<rparr>)) ConfigurationError"
    by (simp add: raises_def isinstance_def)
  show "spec_address_grammar ''bot@example.com/home@work''"
    by (rule grammar_examples)
  show "post_init (minimal_settings\<lparr>jid := ''bot@example.com/home@work''\<rparr>)
       = Inl (Exn ValueError ''Invalid JID format: bot@example.com/home@work'')"
    by (simp add: post_init_def minimal_settings_def validate_jid_def grammar_examples
          ERR_INVALID_JID_def)
qed


section \<open>Allow-list entries with a resource\<close>

lemma no_slash_in_bare: "CHR ''/'' \<notin> set (takeWhile (\<lambda>x. x \<noteq> CHR ''/'') candidate)"
  by (induction candidate) auto

text \<open>
  C10. An allow-list entry with a resource suffix passes the allow-list parsing, and an
  allow-list all of whose entries contain \<^verbatim>\<open>/\<close> (as every entry with a resource suffix
  does) admits no candidate at all: the candidate is cut at its first \<^verbatim>\<open>/\<close> before the
  membership test.
\<close>

theorem resource_entries_deny_all:
  "JID_PATTERN_match ''user@example.com/res''
   \<and> parse_allowed_jids (Some ''user@example.com/res'') = Inr (Some {''user@example.com/res''})
   \<and> (allowed_jids s = Some allowed \<and> (\<forall>e\<in>allowed. CHR ''/'' \<in> set e) \<longrightarrow>
        \<not> is_jid_allowed s candidate)"
proof (intro conjI impI)
  show "JID_PATTERN_match ''user@example.com/res''"
    by (simp add: JID_PATTERN_match_def)
  show "parse_allowed_jids (Some ''user@example.com/res'') = Inr (Some {''user@example.com/res''})"
    by (simp add: parse_allowed_jids_def split_chr_def strip_def isspace_def validate_jid_def
          JID_PATTERN_match_def)
next
  assume a: "allowed_jids s = Some allowed \<and> (\<forall>e\<in>allowed. CHR ''/'' \<in> set e)"
  then have "takeWhile (\<lambda>x. x \<noteq> CHR ''/'') candidate \<notin> allowed"
    using no_slash_in_bare [of candidate] by blast
  with a show "\<not> is_jid_allowed s candidate"
    by (simp add: is_jid_allowed_Some)
qed

theorem resource_entries_deny_all_witness:
  "allowed_jids (minimal_settings\<lparr>allowed_jids := Some {''user@example.com/res''}\<rparr>)
     = Some {''user@example.com/res''}
   \<and> CHR ''/'' \<in> set ''user@example.com/res''
   \<and> \<not> is_jid_allowed (minimal_settings\<lparr>allowed_jids := Some {''user@example.com/res''}\<rparr>)
         ''user@example.com/res''
   \<and> \<not> is_jid_allowed (minimal_settings\<lparr>allowed_jids := Some {''user@example.com/res''}\<rparr>)
         ''user@example.com''"
proof -
  have a: "allowed_jids (minimal_settings\<lparr>allowed_jids := Some {''user@example.com/res''}\<rparr>)
           = Some {''user@example.com/res''}"
    by simp
  have b: "\<forall>e\<in>{''user@example.com/res''}. CHR ''/'' \<in> set e"
    by simp
  from a b
    resource_entries_deny_all
      [of "minimal_settings\<lparr>allowed_jids := Some {''user@example.com/res''}\<rparr>"
          "{''user@example.com/res''}" "''user@example.com/res''"]
    resource_entries_deny_all
      [of "minimal_settings\<lparr>allowed_jids := Some {''user@example.com/res''}\<rparr>"
          "{''user@example.com/res''}" "''user@example.com''"]
  show ?thesis
    by simp
qed


section \<open>The debug flag\<close>

lemma from_env_debug:
  "from_env bi env = Inr s \<Longrightarrow> debug s = parse_bool (env ENV_DEBUG) DEFAULT_DEBUG"
  by (simp add: from_env_Inr)

lemma from_dict_debug:
  "from_dict bi data = Inr s \<Longrightarrow> debug s = py_bool (dict_get (d_debug data) (PyBool DEFAULT_DEBUG))"
  by (simp add: from_dict_Inr)

lemma lower_false: "lower ''false'' = ''false''"
  by code_simp

text \<open>
  C9, at the input where the code departs from it. \<^verbatim>\<open>from_dict\<close> takes the truth value
  \<^verbatim>\<open>bool(v)\<close> of the value under \<^verbatim>\<open>"debug"\<close>, so the string \<^verbatim>\<open>"false"\<close> gives
  \<^verbatim>\<open>debug = True\<close>, where the token rule of \<^verbatim>\<open>_parse_bool\<close>, which \<^verbatim>\<open>from_env\<close>
  applies, gives \<^verbatim>\<open>False\<close>.
\<close>

theorem from_dict_debug_string:
  "from_dict bi
     \<lparr>d_jid = Some (PyStr ''bot@example.com''), d_password = Some (PyStr ''secret''),
      d_default_receiver = Some (PyStr ''user@example.com''), d_base_url = None,
      d_allowed_jids = None, d_connect_timeout = None, d_keepalive_interval = None,
      d_retry_delay = None, d_send_delay = None, d_resource = None,
      d_debug = Some (PyStr ''false'')\<rparr>
   = Inr (minimal_settings\<lparr>debug := True\<rparr>)
   \<and> parse_bool (Some ''false'') DEFAULT_DEBUG = False"
  by (simp add: from_dict_def coerce_allowed_jids_def int_or_default_def float_or_default_def
        dict_get_def post_init_def validate_jid_def JID_PATTERN_match_def
        minimal_settings_def parse_bool_def lower_false)


section \<open>Dispatch of an inbound message\<close>



text \<open>One pass through the body of the loops.\<close>

lemma call_handler_state:
  "fst (call_handler path prefix sender body m name h b)
   = fst (apply_call (fst (invoke h sender body m)) b)"
  by (auto simp: call_handler_def split: prod.splits option.splits)






text \<open>The loop over the snapshot of the sync handlers.\<close>

lemma call_handlers_Cons:
  "call_handlers prefix sender body m ((name, h) # rest) b =
     (let r1 = call_handler SyncPath prefix sender body m name h b
      in if snd (snd r1) \<noteq> None then r1
         else let r2 = call_handlers prefix sender body m rest (fst r1)
              in (fst r2, fst (snd r1) @ fst (snd r2), snd (snd r2)))"
  by (auto simp: Let_def split: prod.splits option.splits)






text \<open>The loop over the live view of the async handlers.\<close>

lemma call_live_handlers_changed:
  "length (async_message_handlers b) \<noteq> used \<Longrightarrow>
   call_live_handlers prefix sender body m used pos b
   = (b, [], Some (Exn RuntimeError ''dictionary changed size during iteration''))"
  by (subst call_live_handlers.simps) simp

lemma call_live_handlers_stop:
  "length (async_message_handlers b) = used \<Longrightarrow> used \<le> pos \<Longrightarrow>
   call_live_handlers prefix sender body m used pos b = (b, [], None)"
  by (subst call_live_handlers.simps) simp

lemma call_live_handlers_step:
  "length (async_message_handlers b) = used \<Longrightarrow> pos < used \<Longrightarrow>
   call_live_handlers prefix sender body m used pos b =
     (let r1 = call_handler AsyncPath prefix sender body m
                 (fst (async_message_handlers b ! pos)) (snd (async_message_handlers b ! pos)) b
      in if snd (snd r1) \<noteq> None then r1
         else let r2 = call_live_handlers prefix sender body m used (Suc pos) (fst r1)
              in (fst r2, fst (snd r1) @ fst (snd r2), snd (snd r2)))"
  by (subst call_live_handlers.simps) (auto simp: Let_def split: prod.splits option.splits)






lemma on_message_accepted:
  assumes "settings_opt b = Some s" "msg_type m \<in> {''chat'', ''normal''}" "msg_body m \<noteq> []"
    "is_jid_allowed s (jid_bare (msg_from m))"
  shows "on_message b m =
     (let r1 = call_handlers ''Error in message handler: '' (jid_full (msg_from m))
                 (msg_body m) m (message_handlers (handlers b)) b
      in if snd (snd r1) \<noteq> None
         then (fst r1, Log LogDebug (LOG_MESSAGE_RECEIVED (jid_full (msg_from m))) # fst (snd r1),
               snd (snd r1))
         else let r2 = call_live_handlers ''Error in async message handler: ''
                         (jid_full (msg_from m)) (msg_body m) m
                         (length (async_message_handlers (fst r1))) 0 (fst r1)
              in (fst r2,
                  Log LogDebug (LOG_MESSAGE_RECEIVED (jid_full (msg_from m)))
                    # fst (snd r1) @ fst (snd r2),
                  snd (snd r2)))"
  using assms by (auto simp: on_message_def Let_def split: prod.splits option.splits)







section \<open>The settings across initialize and disconnect\<close>

text \<open>\<^verbatim>\<open>disconnect\<close> never assigns \<^verbatim>\<open>_settings\<close>.\<close>

lemma disconnect_keeps_settings: "settings_opt (fst (disconnect tr b)) = settings_opt b"
  by (simp add: disconnect_def Let_def split: option.splits)

text \<open>
  C5, at the inputs where the code departs from it. After \<^verbatim>\<open>initialize(valid_settings)\<close>
  has succeeded (the session starts during the first sleep) and \<^verbatim>\<open>disconnect()\<close> has
  returned, the bot is not initialized and yet the \<^verbatim>\<open>settings\<close> property returns the
  settings, where on the fresh bot it raises \<^verbatim>\<open>NotInitializedError\<close>. The same holds after
  an \<^verbatim>\<open>initialize\<close> that failed by the connection timeout: the settings were stored
  before the connection was tried.
\<close>

theorem settings_survive_disconnect:
  "(case initialize bi env quiet_transport [([SessionStart None], 1 / 10)] new_bot
           (Some valid_settings) of
      Some (b1, evs1, None) \<Rightarrow>
        is_initialized b1 \<and> settings b1 = Inr valid_settings
        \<and> (case disconnect quiet_transport b1 of
              (b2, evs2, raised) \<Rightarrow>
                raised = None \<and> is_initialized b2 = False \<and> settings b2 = Inr valid_settings)
    | _ \<Rightarrow> False)
   \<and> settings new_bot = Inl (Exn NotInitializedError ERR_NOT_INITIALIZED)
   \<and> (case initialize bi env quiet_transport [([], 31)] new_bot (Some valid_settings) of
        Some (b1, evs1, Some e) \<Rightarrow>
          cls e = ConnectionError \<and> is_initialized b1 = False
          \<and> settings b1 = Inr valid_settings
      | _ \<Rightarrow> False)"
  by (simp add: initialize_def connect_def on_session_start_def disconnect_def
        quiet_transport_def new_bot_def valid_settings_def settings_def is_initialized_def
        Let_def)


section \<open>The invariant is kept\<close>

text \<open>
  The fresh bot satisfies the invariant and every method and callback keeps it, whatever
  it returns or raises. The send methods leave the bot unchanged.
\<close>

lemma invar_new_bot: "invar new_bot"
  by (simp add: invar_def new_bot_def new_registry_def)

lemma invar_add_message_handler: "invar b \<Longrightarrow> invar (fst (add_message_handler b name h))"
  by (simp add: invar_def add_message_handler_def AList.distinct_update)

lemma invar_add_presence_handler: "invar b \<Longrightarrow> invar (fst (add_presence_handler b name h))"
  by (simp add: invar_def add_presence_handler_def AList.distinct_update)

lemma invar_remove_message_handler: "invar b \<Longrightarrow> invar (fst (remove_message_handler b name))"
  by (simp add: invar_def remove_message_handler_def registry_remove_message_handler_def
        AList.distinct_delete)

lemma invar_remove_presence_handler: "invar b \<Longrightarrow> invar (fst (remove_presence_handler b name))"
  by (simp add: invar_def remove_presence_handler_def registry_remove_presence_handler_def
        AList.distinct_delete)

lemma invar_registry_add_message_handler:
  "invar b \<Longrightarrow> invar (b\<lparr>handlers := fst (registry_add_message_handler (handlers b) name h)\<rparr>)"
  by (simp add: invar_def registry_add_message_handler_def AList.distinct_update)

lemma invar_registry_add_presence_handler:
  "invar b \<Longrightarrow> invar (b\<lparr>handlers := fst (registry_add_presence_handler (handlers b) name h)\<rparr>)"
  by (simp add: invar_def registry_add_presence_handler_def AList.distinct_update)

lemma invar_disconnect: "invar b \<Longrightarrow> invar (fst (disconnect tr b))"
  by (auto simp: invar_def disconnect_def registry_clear_def Let_def split: option.splits)

lemma send_keeps_state:
  "fst (reply_to_user tr b message recipient) = b"
  "fst (send_message tr b message) = b"
  "fst (send_url tr b path) = b"
  by (auto simp: reply_to_user_def send_message_def send_url_def Let_def split: option.splits)

lemma invar_on_session_start: "invar b \<Longrightarrow> invar (fst (on_session_start r b))"
  by (auto simp: invar_def on_session_start_def split: option.splits)

lemma invar_on_failed_auth: "invar b \<Longrightarrow> invar (fst (on_failed_auth b))"
  by (simp add: invar_def on_failed_auth_def)

lemma invar_on_disconnected: "invar b \<Longrightarrow> invar (fst (on_disconnected b))"
  by (simp add: invar_def on_disconnected_def)

lemma invar_deliver: "invar b \<Longrightarrow> invar (fst (deliver sgs b))"
proof (induction sgs arbitrary: b)
  case Nil
  then show ?case by simp
next
  case (Cons sg sgs)
  obtain b1 evs1 where c: "(case sg of SessionStart r \<Rightarrow> on_session_start r b
                             | FailedAuth \<Rightarrow> on_failed_auth b
                             | Disconnected \<Rightarrow> on_disconnected b) = (b1, evs1)"
    by (cases "case sg of SessionStart r \<Rightarrow> on_session_start r b
                | FailedAuth \<Rightarrow> on_failed_auth b | Disconnected \<Rightarrow> on_disconnected b")
  obtain b2 evs2 where d: "deliver sgs b1 = (b2, evs2)"
    by (cases "deliver sgs b1")
  from Cons.prems c have "invar b1"
    using invar_on_session_start [of b] invar_on_failed_auth [of b] invar_on_disconnected [of b]
    by (cases sg) (simp_all, (metis fst_conv)+)
  from Cons.IH [OF this] d have "invar b2" by simp
  with c d show ?case by simp
qed

lemma invar_connect_wait:
  "invar b \<Longrightarrow> connect_wait tr timeout ticks b = Some (b', evs, r) \<Longrightarrow> invar b'"
proof (induction ticks arbitrary: b evs)
  case Nil
  then show ?case by (simp split: if_splits)
next
  case (Cons tick ticks)
  obtain sgs elapsed where tick: "tick = (sgs, elapsed)" by (cases tick)
  obtain b1 evs1 where d: "deliver sgs b = (b1, evs1)" by (cases "deliver sgs b")
  from invar_deliver [OF Cons.prems(1), of sgs] d have i1: "invar b1"
    by simp
  from Cons.prems i1 Cons.IH [OF i1] show ?case
    by (auto simp: tick d split: if_splits option.splits)
qed

lemma callbacks_keep:
  "settings_opt (fst (on_session_start r b)) = settings_opt b
   \<and> client_opt (fst (on_session_start r b)) = client_opt b
   \<and> initialized (fst (on_session_start r b)) = initialized b"
  "settings_opt (fst (on_failed_auth b)) = settings_opt b
   \<and> client_opt (fst (on_failed_auth b)) = client_opt b
   \<and> initialized (fst (on_failed_auth b)) = initialized b"
  "settings_opt (fst (on_disconnected b)) = settings_opt b
   \<and> client_opt (fst (on_disconnected b)) = client_opt b
   \<and> initialized (fst (on_disconnected b)) = initialized b"
  by (auto simp: on_session_start_def on_failed_auth_def on_disconnected_def
           split: option.splits)

lemma deliver_keeps:
  "settings_opt (fst (deliver sgs b)) = settings_opt b
   \<and> client_opt (fst (deliver sgs b)) = client_opt b
   \<and> initialized (fst (deliver sgs b)) = initialized b"
proof (induction sgs arbitrary: b)
  case Nil
  show ?case by simp
next
  case (Cons sg sgs)
  show ?case
    using Cons.IH callbacks_keep
    by (cases sg) (simp_all split: prod.splits, (metis fst_conv)+)
qed

lemma connect_wait_keeps:
  "connect_wait tr timeout ticks b = Some (b', evs, r) \<Longrightarrow>
   settings_opt b' = settings_opt b \<and> client_opt b' = client_opt b
   \<and> initialized b' = initialized b"
proof (induction ticks arbitrary: b evs)
  case Nil
  then show ?case by (simp split: if_splits)
next
  case (Cons tick ticks)
  obtain sgs elapsed where tick: "tick = (sgs, elapsed)" by (cases tick)
  obtain b1 evs1 where d: "deliver sgs b = (b1, evs1)" by (cases "deliver sgs b")
  from deliver_keeps [of sgs b] d
  have k: "settings_opt b1 = settings_opt b \<and> client_opt b1 = client_opt b
           \<and> initialized b1 = initialized b"
    by simp
  from Cons.prems k Cons.IH [of b1] show ?case
    by (auto simp: tick d split: if_splits option.splits)
qed

lemma invar_connect: "invar b \<Longrightarrow> connect tr ticks b = Some (b', evs, r) \<Longrightarrow> invar b'"
proof -
  assume i: "invar b" and c: "connect tr ticks b = Some (b', evs, r)"
  show "invar b'"
  proof (cases "settings_opt b")
    case None
    with c i show ?thesis by (simp add: connect_def)
  next
    case (Some s)
    let ?b1 = "b\<lparr>client_opt := Some \<lparr>client_jid = full_jid s, client_password = password s\<rparr>,
                   session_started := False, auth_error := None\<rparr>"
    from i Some have i1: "invar ?b1"
      by (simp add: invar_def)
    have step: "invar b2 \<and> invar (b2\<lparr>connected := True\<rparr>)"
      if w: "connect_wait tr (connect_timeout s) ticks ?b1 = Some (b2, evs2, r2)"
      for b2 evs2 r2
    proof -
      from invar_connect_wait [OF i1 w] have "invar b2" .
      moreover from connect_wait_keeps [OF w] have "client_opt b2 \<noteq> None" by simp
      ultimately show ?thesis by (simp add: invar_def)
    qed
    from c Some i1 step show ?thesis
      by (auto simp: connect_def Let_def split: option.splits if_splits)
  qed
qed

lemma connect_keeps:
  "connect tr ticks b = Some (b', evs, r) \<Longrightarrow>
   settings_opt b' = settings_opt b \<and> initialized b' = initialized b
   \<and> (r = None \<longrightarrow> client_opt b' \<noteq> None)"
  by (auto simp: connect_def Let_def split: option.splits if_splits
           dest!: connect_wait_keeps)

lemma invar_initialize:
  "invar b \<Longrightarrow> initialize bi env tr ticks b settings_arg = Some (b', evs, r) \<Longrightarrow> invar b'"
proof -
  assume i: "invar b" and c: "initialize bi env tr ticks b settings_arg = Some (b', evs, r)"
  have step: "invar b2 \<and> (r2 = None \<longrightarrow> invar (b2\<lparr>initialized := True\<rparr>))"
    if w: "connect tr ticks (b\<lparr>settings_opt := Some s\<rparr>) = Some (b2, evs2, r2)"
    for s b2 evs2 r2
  proof -
    from i have "invar (b\<lparr>settings_opt := Some s\<rparr>)" by (simp add: invar_def)
    from invar_connect [OF this w] have "invar b2" .
    with connect_keeps [OF w] show ?thesis by (auto simp: invar_def)
  qed
  from c i step show ?thesis
    by (auto simp: initialize_def Let_def split: if_splits sum.splits option.splits)
qed

text \<open>The dispatch of a message keeps the invariant, whatever the handlers do.\<close>

lemma invar_apply_call: "invar b \<Longrightarrow> invar (fst (apply_call c b))"
proof (cases c)
  case None
  assume "invar b"
  with None show ?thesis by (simp add: apply_call_def)
next
  case (Some a)
  assume i: "invar b"
  show ?thesis
  proof (cases a)
    case (AddMessageHandler name h)
    with Some invar_add_message_handler [OF i, of name h] show ?thesis
      by (auto simp: apply_call_def split: prod.splits)
  next
    case (RemoveMessageHandler name)
    with Some invar_remove_message_handler [OF i, of name] show ?thesis
      by (auto simp: apply_call_def split: prod.splits)
  qed
qed

lemma invar_call_handler:
  "invar b \<Longrightarrow> invar (fst (call_handler path prefix sender body m name h b))"
  by (simp add: call_handler_state invar_apply_call)

lemma invar_call_handlers:
  "invar b \<Longrightarrow> invar (fst (call_handlers prefix sender body m hs b))"
proof (induction hs arbitrary: b)
  case Nil
  then show ?case by simp
next
  case (Cons p hs)
  obtain name h where p: "p = (name, h)" by (cases p)
  from invar_call_handler [OF Cons.prems]
  have i: "invar (fst (call_handler SyncPath prefix sender body m name h b))" .
  from i Cons.IH [OF i] show ?case
    unfolding p call_handlers_Cons by (simp add: Let_def)
qed

lemma invar_call_live_handlers:
  "invar b \<Longrightarrow> invar (fst (call_live_handlers prefix sender body m used pos b))"
proof (induction "used - pos" arbitrary: pos b)
  case 0
  then show ?case
    by (cases "length (async_message_handlers b) = used")
       (simp_all add: call_live_handlers_stop call_live_handlers_changed)
next
  case (Suc n)
  then have lt: "pos < used" and n: "n = used - Suc pos" by simp_all
  show ?case
  proof (cases "length (async_message_handlers b) = used")
    case False
    with Suc.prems show ?thesis
      by (simp add: call_live_handlers_changed)
  next
    case True
    let ?p = "async_message_handlers b ! pos"
    from invar_call_handler [OF Suc.prems]
    have i: "invar (fst (call_handler AsyncPath prefix sender body m (fst ?p) (snd ?p) b))" .
    from i Suc.hyps(1) [OF n i] show ?thesis
      unfolding call_live_handlers_step [OF True lt] by (simp add: Let_def)
  qed
qed

lemma invar_on_message: "invar b \<Longrightarrow> invar (fst (on_message b m))"
proof -
  assume i: "invar b"
  let ?sender = "jid_full (msg_from m)" and ?body = "msg_body m"
  let ?r1 = "call_handlers ''Error in message handler: '' ?sender ?body m
               (message_handlers (handlers b)) b"
  from invar_call_handlers [OF i] have i1: "invar (fst ?r1)" .
  from invar_call_live_handlers [OF i1]
  have i2: "invar (fst (call_live_handlers ''Error in async message handler: '' ?sender ?body m
                          (length (async_message_handlers (fst ?r1))) 0 (fst ?r1)))" .
  show ?thesis
  proof (cases "\<exists>s. settings_opt b = Some s \<and> msg_type m \<in> {''chat'', ''normal''}
                  \<and> msg_body m \<noteq> [] \<and> is_jid_allowed s (jid_bare (msg_from m))")
    case True
    then obtain s where "settings_opt b = Some s" "msg_type m \<in> {''chat'', ''normal''}"
      "msg_body m \<noteq> []" "is_jid_allowed s (jid_bare (msg_from m))"
      by blast
    from on_message_accepted [OF this] i1 i2 show ?thesis
      by (simp add: Let_def)
  next
    case False
    then have "fst (on_message b m) = b"
      by (auto simp: on_message_def Let_def split: option.splits)
    with i show ?thesis by simp
  qed
qed

text \<open>On a bot that satisfies the invariant the \<^verbatim>\<open>assert\<close> of the send methods holds.\<close>

lemma initialize_sets_settings:
  "initialize bi env tr ticks b settings_arg = Some (b', evs, None) \<Longrightarrow>
   initialized b' \<and> settings_opt b' \<noteq> None"
  by (auto simp: initialize_def Let_def split: if_splits sum.splits option.splits
           dest!: connect_keeps)

lemma invar_initialized_settings: "invar b \<Longrightarrow> initialized b \<Longrightarrow> settings_opt b \<noteq> None"
  by (simp add: invar_def)

end
